theory Spec2Isabelle
  imports Main "HOL-Library.AList" "HOL-Library.Char_ord" "HOL-Library.List_Lexorder"
begin

section \<open>Strings\<close>

text \<open>
  Python strings are represented as \<^typ>\<open>string\<close>: ASCII characters one to one, any
  other code point by its UTF-8 bytes. The engine's Japanese command aliases and fixed
  Japanese replies are therefore byte lists. \<open>str.lower\<close> acts on the letters A to Z
  and \<open>str.split\<close> on the ASCII white space characters; the bytes of a non-ASCII
  code point are neither letters nor white space, as for the kana and kanji the engine
  uses.
\<close>

definition nl :: string where
  "nl = [CHR 0x0A]"

definition digit_char :: "nat \<Rightarrow> char" where
  "digit_char d = ''0123456789'' ! d"

fun str_nat :: "nat \<Rightarrow> string" where
  "str_nat n = (if n < 10 then [digit_char n] else str_nat (n div 10) @ [digit_char (n mod 10)])"

declare str_nat.simps [simp del]

text \<open>\<open>str(i)\<close> for a Python integer.\<close>

definition str_int :: "int \<Rightarrow> string" where
  "str_int i = (if i < 0 then CHR ''-'' # str_nat (nat (- i)) else str_nat (nat i))"

text \<open>\<open>str(coords)\<close> for a pair of integers, as an f-string prints a tuple.\<close>

definition str_tuple :: "int \<times> int \<Rightarrow> string" where
  "str_tuple c = ''('' @ str_int (fst c) @ '', '' @ str_int (snd c) @ '')''"

definition lower_char :: "char \<Rightarrow> char" where
  "lower_char c =
     (case map_of (zip ''ABCDEFGHIJKLMNOPQRSTUVWXYZ'' ''abcdefghijklmnopqrstuvwxyz'') c of
        Some l \<Rightarrow> l
      | None \<Rightarrow> c)"

definition lower :: "string \<Rightarrow> string" where
  "lower s = map lower_char s"

definition is_space :: "char \<Rightarrow> bool" where
  "is_space c = (c \<in> set [CHR '' '', CHR 0x09, CHR 0x0A, CHR 0x0B, CHR 0x0C, CHR 0x0D,
                            CHR 0x1C, CHR 0x1D, CHR 0x1E, CHR 0x1F])"

text \<open>\<open>s.split()\<close>: the maximal runs of characters that are not white space.\<close>

fun split_words :: "string \<Rightarrow> string \<Rightarrow> string list" where
  "split_words w [] = (if w = [] then [] else [w])"
| "split_words w (c # cs) =
     (if is_space c then (if w = [] then split_words [] cs else w # split_words [] cs)
      else split_words (w @ [c]) cs)"

definition split :: "string \<Rightarrow> string list" where
  "split s = split_words [] s"

text \<open>\<open>sep.join(xs)\<close>.\<close>

fun join :: "string \<Rightarrow> string list \<Rightarrow> string" where
  "join sep [] = []"
| "join sep [x] = x"
| "join sep (x # y # ys) = x @ sep @ join sep (y # ys)"

text \<open>\<open>t in s\<close> for strings: \<open>t\<close> occurs in \<open>s\<close> as a contiguous block.\<close>

fun contains :: "string \<Rightarrow> string \<Rightarrow> bool" where
  "contains t [] = (t = [])"
| "contains t (c # cs) = (take (length t) (c # cs) = t \<or> contains t cs)"

text \<open>The Japanese words of the source, in UTF-8.\<close>

definition jp_miru :: string where \<comment> \<open>miru, to look\<close>
  "jp_miru = [CHR 0xE8, CHR 0xA6, CHR 0x8B, CHR 0xE3, CHR 0x82, CHR 0x8B]"

definition jp_iku :: string where \<comment> \<open>iku, to go\<close>
  "jp_iku = [CHR 0xE8, CHR 0xA1, CHR 0x8C, CHR 0xE3, CHR 0x81, CHR 0x8F]"

definition jp_kita :: string where \<comment> \<open>kita, north\<close>
  "jp_kita = [CHR 0xE5, CHR 0x8C, CHR 0x97]"

definition jp_minami :: string where \<comment> \<open>minami, south\<close>
  "jp_minami = [CHR 0xE5, CHR 0x8D, CHR 0x97]"

definition jp_higashi :: string where \<comment> \<open>higashi, east\<close>
  "jp_higashi = [CHR 0xE6, CHR 0x9D, CHR 0xB1]"

definition jp_nishi :: string where \<comment> \<open>nishi, west\<close>
  "jp_nishi = [CHR 0xE8, CHR 0xA5, CHR 0xBF]"

definition jp_toru :: string where \<comment> \<open>toru, to take\<close>
  "jp_toru = [CHR 0xE5, CHR 0x8F, CHR 0x96, CHR 0xE3, CHR 0x82, CHR 0x8B]"

definition jp_suteru :: string where \<comment> \<open>suteru, to throw away\<close>
  "jp_suteru = [CHR 0xE6, CHR 0x8D, CHR 0xA8, CHR 0xE3, CHR 0x81, CHR 0xA6, CHR 0xE3, CHR 0x82,
                CHR 0x8B]"

definition jp_mochimono :: string where \<comment> \<open>mochimono, belongings\<close>
  "jp_mochimono = [CHR 0xE6, CHR 0x8C, CHR 0x81, CHR 0xE3, CHR 0x81, CHR 0xA1, CHR 0xE7, CHR 0x89,
                   CHR 0xA9]"

definition jp_hanasu :: string where \<comment> \<open>hanasu, to speak\<close>
  "jp_hanasu = [CHR 0xE8, CHR 0xA9, CHR 0xB1, CHR 0xE3, CHR 0x81, CHR 0x99]"

definition jp_herupu :: string where \<comment> \<open>herupu, help\<close>
  "jp_herupu = [CHR 0xE3, CHR 0x83, CHR 0x98, CHR 0xE3, CHR 0x83, CHR 0xAB, CHR 0xE3, CHR 0x83,
                CHR 0x97]"

definition jp_shuryo :: string where \<comment> \<open>shuuryou, end\<close>
  "jp_shuryo = [CHR 0xE7, CHR 0xB5, CHR 0x82, CHR 0xE4, CHR 0xBA, CHR 0x86]"

definition jp_cannot_talk :: string where \<comment> \<open>sumimasen, ima hanasemasen.\<close>
  "jp_cannot_talk =
     [CHR 0xE3, CHR 0x81, CHR 0x99, CHR 0xE3, CHR 0x81, CHR 0xBF, CHR 0xE3, CHR 0x81, CHR 0xBE,
      CHR 0xE3, CHR 0x81, CHR 0x9B, CHR 0xE3, CHR 0x82, CHR 0x93, CHR 0xE3, CHR 0x80, CHR 0x81,
      CHR 0xE4, CHR 0xBB, CHR 0x8A, CHR 0xE8, CHR 0xA9, CHR 0xB1, CHR 0xE3, CHR 0x81, CHR 0x9B,
      CHR 0xE3, CHR 0x81, CHR 0xBE, CHR 0xE3, CHR 0x81, CHR 0x9B, CHR 0xE3, CHR 0x82, CHR 0x93,
      CHR 0xE3, CHR 0x80, CHR 0x82]"

definition jp_not_understood :: string where \<comment> \<open>sumimasen, yoku rikai dekimasen.\<close>
  "jp_not_understood =
     [CHR 0xE3, CHR 0x81, CHR 0x99, CHR 0xE3, CHR 0x81, CHR 0xBF, CHR 0xE3, CHR 0x81, CHR 0xBE,
      CHR 0xE3, CHR 0x81, CHR 0x9B, CHR 0xE3, CHR 0x82, CHR 0x93, CHR 0xE3, CHR 0x80, CHR 0x81,
      CHR 0xE3, CHR 0x82, CHR 0x88, CHR 0xE3, CHR 0x81, CHR 0x8F, CHR 0xE7, CHR 0x90, CHR 0x86,
      CHR 0xE8, CHR 0xA7, CHR 0xA3, CHR 0xE3, CHR 0x81, CHR 0xA7, CHR 0xE3, CHR 0x81, CHR 0x8D,
      CHR 0xE3, CHR 0x81, CHR 0xBE, CHR 0xE3, CHR 0x81, CHR 0x9B, CHR 0xE3, CHR 0x82, CHR 0x93,
      CHR 0xE3, CHR 0x80, CHR 0x82]"

definition jp_technical_problem :: string where \<comment> \<open>sumimasen, gijutsuteki na mondai ga arimasu.\<close>
  "jp_technical_problem =
     [CHR 0xE3, CHR 0x81, CHR 0x99, CHR 0xE3, CHR 0x81, CHR 0xBF, CHR 0xE3, CHR 0x81, CHR 0xBE,
      CHR 0xE3, CHR 0x81, CHR 0x9B, CHR 0xE3, CHR 0x82, CHR 0x93, CHR 0xE3, CHR 0x80, CHR 0x81,
      CHR 0xE6, CHR 0x8A, CHR 0x80, CHR 0xE8, CHR 0xA1, CHR 0x93, CHR 0xE7, CHR 0x9A, CHR 0x84,
      CHR 0xE3, CHR 0x81, CHR 0xAA, CHR 0xE5, CHR 0x95, CHR 0x8F, CHR 0xE9, CHR 0xA1, CHR 0x8C,
      CHR 0xE3, CHR 0x81, CHR 0x8C, CHR 0xE3, CHR 0x81, CHR 0x82, CHR 0xE3, CHR 0x82, CHR 0x8A,
      CHR 0xE3, CHR 0x81, CHR 0xBE, CHR 0xE3, CHR 0x81, CHR 0x99, CHR 0xE3, CHR 0x80, CHR 0x82]"


section \<open>Data model\<close>

text \<open>
  The engine keeps items, NPCs and vocabulary entries as Python dictionaries. A dictionary
  with a known set of keys is a record with one optional field for each key the engine
  reads: \<open>d.get(k, default)\<close> reads the field with a default, \<open>d[k]\<close> raises
  \<open>KeyError\<close> on \<open>None\<close>. Values have the type the generation prompt asks for
  (strings for names and descriptions, a boolean for \<open>can_be_taken\<close>, a list of strings
  for \<open>vocabulary\<close>). A dictionary whose keys are data (the grid, the catalogs, the
  histories) is an association list in insertion order, read with \<^const>\<open>map_of\<close> and
  written with \<^const>\<open>AList.update\<close>.
\<close>

datatype py_error = IndexError | KeyError string | AttributeError string

record item =
  item_id :: "string option"
  item_name :: "string option"
  item_name_english :: "string option"
  item_name_romaji :: "string option"
  item_japanese_name :: "string option"
  item_description :: "string option"
  item_can_be_taken :: "bool option"
  item_vocabulary :: "string list option"

definition empty_item :: item where
  "empty_item = \<lparr>item_id = None, item_name = None, item_name_english = None,
     item_name_romaji = None, item_japanese_name = None, item_description = None,
     item_can_be_taken = None, item_vocabulary = None\<rparr>"

record npc =
  npc_id :: "string option"
  npc_name :: "string option"
  npc_name_english :: "string option"
  npc_japanese_name :: "string option"
  npc_romaji :: "string option"
  npc_short_description :: "string option"
  npc_role :: "string option"
  npc_personality :: "string option"
  npc_greeting :: "string option"
  npc_dialog :: "string option option" \<comment> \<open>the \<open>dialog\<close> dictionary and its \<open>greeting\<close>\<close>
  npc_vocabulary :: "string list option"

definition empty_npc :: npc where
  "empty_npc = \<lparr>npc_id = None, npc_name = None, npc_name_english = None,
     npc_japanese_name = None, npc_romaji = None, npc_short_description = None,
     npc_role = None, npc_personality = None, npc_greeting = None, npc_dialog = None,
     npc_vocabulary = None\<rparr>"

text \<open>A location dictionary is built by the engine itself with all of its keys.\<close>

record location =
  loc_id :: string
  loc_name :: string
  loc_japanese_name :: string
  loc_description :: string
  loc_setting :: string
  loc_coords :: "int \<times> int"
  loc_exits :: "(string \<times> (int \<times> int) option) list"
  loc_items :: "string list"
  loc_npcs :: "string list"
  loc_image_prompt :: string

text \<open>The reply of an NPC turn: the keys of the JSON object the chat model returns.\<close>

record ai_turn =
  response_japanese :: "string option"
  response_english :: "string option"
  language_note :: "string option"

text \<open>
  One stored exchange. The source stores \<open>json.dumps(ai_response)\<close> under
  \<open>assistant\<close>; the record keeps the dictionary that string renders.
\<close>

record exchange =
  user :: string
  assistant :: ai_turn

record word =
  word_japanese :: "string option"
  word_romaji :: "string option"
  word_english :: "string option"
  word_part_of_speech :: "string option"
  word_jlpt_level :: "string option"
  word_example_sentence :: "string option"
  word_example_translation :: "string option"
  word_context_categories :: "string list option"
  word_related_words :: "string list option"
  word_usage_notes :: "string option"

record theme =
  theme_name :: "string option"
  theme_description :: "string option"
  theme_words :: "string list option"

text \<open>The fields of \<open>SimpleGameEngine\<close>.\<close>

record engine =
  locations :: "(string \<times> location) list"
  items :: "(string \<times> item) list"
  npcs :: "(string \<times> npc) list"
  vocabulary :: "(string \<times> word) list"
  vocabulary_themes :: "(string \<times> theme) list"
  player_inventory :: "string list"
  player_jlpt_level :: string
  conversation_history :: "(string \<times> exchange list) list"
  current_coords :: "int \<times> int"

text \<open>\<open>self.location_settings_pool\<close>, assigned once in \<open>__init__\<close>.\<close>

definition location_settings_pool :: "string list" where
  "location_settings_pool =
     [''Residential Neighborhood'', ''Small Urban Park'', ''Quiet Shopping Street'',
      ''Path near a Small Shrine'', ''Empty Field'', ''Riverside Path'']"

definition engine_init :: "string \<Rightarrow> engine" where
  "engine_init level = \<lparr>locations = [], items = [], npcs = [], vocabulary = [],
     vocabulary_themes = [], player_inventory = [], player_jlpt_level = level,
     conversation_history = [], current_coords = (0, 0)\<rparr>"


section \<open>The outside world\<close>

text \<open>
  What a command cannot compute is an input of the model: whether the OpenAI key is set,
  the random draws, and for each kind of request what comes back. A request either
  fails (the call, \<open>json.loads\<close> or anything else in the \<open>try\<close> block raises, with
  the exception's text) or yields the parsed JSON object.
\<close>

datatype 'a reply = Failed string | Parsed 'a

record exam_json =
  exam_description :: "string option"
  exam_vocabulary :: "string list option"

record world =
  has_ai_client :: bool \<comment> \<open>\<open>HAS_AI_CLIENT\<close> of \<open>run_game\<close>\<close>
  api_key_set :: bool \<comment> \<open>\<open>openai.api_key\<close> is set\<close>
  setting_draw :: nat \<comment> \<open>the index \<open>random.choice\<close> draws\<close>
  npc_roll :: bool \<comment> \<open>\<open>random.random() < 0.70\<close>\<close>
  location_reply :: "(string \<times> string) list reply"
  item_reply :: "item reply"
  npc_reply :: "npc reply"
  talk_reply :: "ai_turn reply"
  look_reply :: "string reply"
  exam_reply :: "exam_json reply"

text \<open>
  What a command does to the outside world: the requests sent to the text model, and the
  two log lines that record the id given to a new item or NPC.
\<close>

datatype api = LocationDetails | ItemDetails | NpcDetails | Conversation | EnhancedLook
  | ItemExamination

datatype event = Request api | ItemAdded string | NpcAdded string


section \<open>The text-generation client\<close>

text \<open>
  \<open>AIClient.generate_location_details\<close>. Without a key, after a failed request, and
  for a reply that lacks one of the three keys, the result is the fallback dictionary,
  which is built from the setting and the coordinates alone.
\<close>

definition fallback_details :: "string \<Rightarrow> int \<times> int \<Rightarrow> (string \<times> string) list" where
  "fallback_details setting coords =
     [(''name'', setting @ '' at '' @ str_tuple coords),
      (''japanese_name'',
         setting @ '' ('' @ str_int (fst coords) @ '','' @ str_int (snd coords) @ '')''),
      (''description'',
         ''A procedurally generated '' @ lower setting @ '' at '' @ str_tuple coords
           @ '' (AI fallback).'')]"

definition generate_location_details ::
  "world \<Rightarrow> string \<Rightarrow> int \<times> int \<Rightarrow> (string \<times> string) list \<times> event list" where
  "generate_location_details w setting coords =
     (if \<not> api_key_set w then (fallback_details setting coords, [])
      else case location_reply w of
             Failed e \<Rightarrow> (fallback_details setting coords, [Request LocationDetails])
           | Parsed result \<Rightarrow>
               if \<not> list_all (\<lambda>k. map_of result k \<noteq> None)
                        [''name'', ''japanese_name'', ''description'']
               then (fallback_details setting coords, [Request LocationDetails])
               else (result, [Request LocationDetails]))"

text \<open>
  \<open>AIClient.generate_item_details\<close>: \<open>None\<close> without a key, after a failed request
  and for a reply that lacks a required key. The two \<open>isinstance\<close> tests hold by the
  types of the fields.
\<close>

definition generate_item_details :: "world \<Rightarrow> string \<Rightarrow> item option \<times> event list" where
  "generate_item_details w setting =
     (if \<not> api_key_set w then (None, [])
      else case item_reply w of
             Failed e \<Rightarrow> (None, [Request ItemDetails])
           | Parsed result \<Rightarrow>
               if item_name result = None \<or> item_name_english result = None
                  \<or> item_name_romaji result = None \<or> item_description result = None
                  \<or> item_can_be_taken result = None \<or> item_vocabulary result = None
               then (None, [Request ItemDetails])
               else (Some result, [Request ItemDetails]))"

text \<open>\<open>AIClient.generate_npc_details\<close>, in the same way.\<close>

definition generate_npc_details :: "world \<Rightarrow> string \<Rightarrow> npc option \<times> event list" where
  "generate_npc_details w setting =
     (if \<not> api_key_set w then (None, [])
      else case npc_reply w of
             Failed e \<Rightarrow> (None, [Request NpcDetails])
           | Parsed result \<Rightarrow>
               if npc_name result = None \<or> npc_name_english result = None
                  \<or> npc_short_description result = None \<or> npc_role result = None
                  \<or> npc_personality result = None \<or> npc_greeting result = None
                  \<or> npc_vocabulary result = None
               then (None, [Request NpcDetails])
               else (Some result, [Request NpcDetails]))"

text \<open>
  \<open>AIClient.npc_conversation\<close>. The function returns a dictionary on every path: a
  static turn without a key, a substitute for a reply that lacks a required key, and
  the technical-issue turn, whose note carries the exception's text, after a failed
  request. The prompt and the history it is given only shape the request.
\<close>

definition npc_conversation :: "world \<Rightarrow> ai_turn \<times> event list" where
  "npc_conversation w =
     (if \<not> api_key_set w then
        (\<lparr>response_japanese = Some jp_cannot_talk,
          response_english = Some ''Sorry, I can't talk right now.'',
          language_note = Some ''Try again later.''\<rparr>, [])
      else case talk_reply w of
             Failed e \<Rightarrow>
               (\<lparr>response_japanese = Some jp_technical_problem,
                 response_english = Some ''Sorry, there's a technical issue.'',
                 language_note = Some (''Error: '' @ e)\<rparr>, [Request Conversation])
           | Parsed result \<Rightarrow>
               if response_japanese result = None \<or> response_english result = None
               then (\<lparr>response_japanese = Some jp_not_understood,
                      response_english = Some ''I'm sorry, I don't understand well.'',
                      language_note = Some ''The AI response was incomplete.''\<rparr>,
                     [Request Conversation])
               else (result, [Request Conversation]))"

text \<open>\<open>AIClient.generate_enhanced_look\<close>; a reply is the stripped text of the answer.\<close>

definition generate_enhanced_look :: "world \<Rightarrow> string \<times> event list" where
  "generate_enhanced_look w =
     (if \<not> api_key_set w then
        (''You look around, but your imagination fails you without the AI's help.'', [])
      else case look_reply w of
             Failed e \<Rightarrow>
               (''You try to look closer, but the details blur. (AI Error: '' @ e @ '')'',
                [Request EnhancedLook])
           | Parsed description \<Rightarrow> (description, [Request EnhancedLook]))"

text \<open>\<open>AIClient.generate_item_examination_details\<close>.\<close>

record examination =
  ex_description :: string
  ex_vocabulary :: "string list"

definition or_else :: "'a option \<Rightarrow> 'a \<Rightarrow> 'a" where
  "or_else x d = (case x of Some v \<Rightarrow> v | None \<Rightarrow> d)"

definition generate_item_examination_details :: "world \<Rightarrow> item \<Rightarrow> examination \<times> event list" where
  "generate_item_examination_details w item_data =
     (let fallback_response =
            \<lparr>ex_description = or_else (item_description item_data)
                (''You examine the ''
                   @ or_else (item_name_english item_data) (or_else (item_id item_data) ''None'')
                   @ '', but find nothing remarkable.''),
             ex_vocabulary = []\<rparr>
      in if \<not> api_key_set w then (fallback_response, [])
         else case exam_reply w of
                Failed e \<Rightarrow> (fallback_response, [Request ItemExamination])
              | Parsed result \<Rightarrow>
                  (case (exam_description result, exam_vocabulary result) of
                     (Some d, Some v) \<Rightarrow>
                       (\<lparr>ex_description = or_else (item_description item_data) []
                            @ nl @ nl @ ''Upon closer examination: '' @ d,
                         ex_vocabulary = v\<rparr>, [Request ItemExamination])
                   | _ \<Rightarrow> (fallback_response, [Request ItemExamination])))"


section \<open>World generation\<close>

text \<open>\<open>_coords_to_str\<close>: the grid key of a coordinate.\<close>

definition coords_to_str :: "int \<times> int \<Rightarrow> string" where
  "coords_to_str coords = str_int (fst coords) @ '','' @ str_int (snd coords)"

text \<open>
  \<open>_generate_location_data\<close>, in three parts. The first is its item step: exactly one
  item is asked for; a generated item gets an id made of the grid key and the current
  size of the item catalog, is stored in the catalog under that id, and the id is what
  the new location will list. The step returns the engine, the ids and the English names
  for the image prompt, and the events.
\<close>

definition add_generated_item ::
  "world \<Rightarrow> engine \<Rightarrow> string \<Rightarrow> string \<Rightarrow> engine \<times> string list \<times> string list \<times> event list" where
  "add_generated_item w s coords_str setting =
     (case generate_item_details w setting of
        (Some d, ev) \<Rightarrow>
          if d \<noteq> empty_item then
            (let new_item_id = ''item_'' @ coords_str @ ''_'' @ str_nat (length (items s));
                 d' = d\<lparr>item_id := Some new_item_id\<rparr>
             in (s\<lparr>items := AList.update new_item_id d' (items s)\<rparr>,
                 [new_item_id],
                 [or_else (item_name_english d') new_item_id],
                 ev @ [ItemAdded new_item_id]))
          else (s, [], [], ev)
      | (None, ev) \<Rightarrow> (s, [], [], ev))"

text \<open>
  The NPC step: with the 70 percent draw an NPC is asked for; a generated NPC gets an id
  made of the grid key and the size of the NPC catalog, is stored, and starts with an
  empty conversation history.
\<close>

definition add_generated_npc ::
  "world \<Rightarrow> engine \<Rightarrow> string \<Rightarrow> string \<Rightarrow> engine \<times> string list \<times> string list \<times> event list" where
  "add_generated_npc w s coords_str setting =
     (if npc_roll w then
        (case generate_npc_details w setting of
           (Some d, ev) \<Rightarrow>
             if d \<noteq> empty_npc then
               (let new_npc_id = ''npc_'' @ coords_str @ ''_'' @ str_nat (length (npcs s));
                    d' = d\<lparr>npc_id := Some new_npc_id\<rparr>
                in (s\<lparr>npcs := AList.update new_npc_id d' (npcs s),
                      conversation_history := AList.update new_npc_id [] (conversation_history s)\<rparr>,
                    [new_npc_id],
                    [or_else (npc_name d') new_npc_id @ '' (the ''
                       @ or_else (npc_role d') ''person'' @ '')''],
                    ev @ [NpcAdded new_npc_id]))
             else (s, [], [], ev)
         | (None, ev) \<Rightarrow> (s, [], [], ev))
      else (s, [], [], []))"

text \<open>
  The whole function: the location's texts from the client, then the item step, then the
  NPC step, then the image prompt. The location itself is returned and stored by the
  caller.
\<close>

definition generate_location_data ::
  "world \<Rightarrow> engine \<Rightarrow> int \<times> int \<Rightarrow> string \<Rightarrow> location \<times> engine \<times> event list" where
  "generate_location_data w s coords setting =
     (let coords_str = coords_to_str coords;
          location_id = ''loc_'' @ coords_str;
          (ai_details, ev_loc) = generate_location_details w setting coords;
          location_name = or_else (map_of ai_details ''name'') (setting @ '' at '' @ str_tuple coords);
          location_jp_name = or_else (map_of ai_details ''japanese_name'')
             (setting @ '' ('' @ str_int (fst coords) @ '','' @ str_int (snd coords) @ '')'');
          location_desc = or_else (map_of ai_details ''description'')
             (''A procedurally generated '' @ lower setting @ '' at '' @ str_tuple coords @ ''.'');
          (s1, new_items, item_names_for_prompt, ev_item) =
             add_generated_item w s coords_str setting;
          (s2, new_npcs, npc_names_for_prompt, ev_npc) =
             add_generated_npc w s1 coords_str setting;
          image_prompt = location_desc @ '' Setting: '' @ setting @ ''. Style: photorealistic.''
             @ (if item_names_for_prompt \<noteq> []
                then '' Items visible: '' @ join '', '' item_names_for_prompt @ ''.'' else [])
             @ (if npc_names_for_prompt \<noteq> []
                then '' People present: '' @ join '', '' npc_names_for_prompt @ ''.'' else [])
      in (\<lparr>loc_id = location_id, loc_name = location_name, loc_japanese_name = location_jp_name,
           loc_description = location_desc, loc_setting = setting, loc_coords = coords,
           loc_exits = [], loc_items = new_items, loc_npcs = new_npcs,
           loc_image_prompt = image_prompt\<rparr>,
          s2, ev_loc @ ev_item @ ev_npc))"


section \<open>Reading the engine state\<close>

definition sq :: string where
  "sq = [CHR 0x27]"

record location_view =
  view_description :: string
  view_items :: "item list"
  view_npcs :: "npc list"

text \<open>An \<open>if d:\<close> on the result of \<open>dict.get\<close>: the key is there and the dictionary is not empty.\<close>

definition present_item :: "(string \<times> item) list \<Rightarrow> string \<Rightarrow> item option" where
  "present_item cat k = (case map_of cat k of Some d \<Rightarrow> if d \<noteq> empty_item then Some d else None
                                           | None \<Rightarrow> None)"

definition present_npc :: "(string \<times> npc) list \<Rightarrow> string \<Rightarrow> npc option" where
  "present_npc cat k = (case map_of cat k of Some d \<Rightarrow> if d \<noteq> empty_npc then Some d else None
                                          | None \<Rightarrow> None)"

text \<open>\<open>get_location_description\<close>: the view a move returns, \<open>None\<close> for an unknown key.\<close>

definition get_location_description :: "engine \<Rightarrow> string \<Rightarrow> location_view option" where
  "get_location_description s coords_str =
     (case map_of (locations s) coords_str of
        None \<Rightarrow> None
      | Some location \<Rightarrow>
          (let head = [''Location: '' @ loc_name location @ '' ('' @ coords_str @ '')'',
                       loc_description location];
               item_part =
                 (if loc_items location \<noteq> [] then
                    ''You see:'' #
                    map (\<lambda>i. case present_item (items s) i of
                                 Some d \<Rightarrow> ''  - '' @ or_else (item_name d) i
                               | None \<Rightarrow> ''  - An unknown item ('' @ i @ '')'')
                        (loc_items location)
                  else [''There are no items here.'']);
               items_present = List.map_filter (present_item (items s)) (loc_items location);
               npc_part =
                 (if loc_npcs location \<noteq> [] then
                    ''People present:'' #
                    map (\<lambda>n. case present_npc (npcs s) n of
                                 Some d \<Rightarrow> ''  - '' @ or_else (npc_name d) n
                               | None \<Rightarrow> ''  - Someone unknown ('' @ n @ '')'')
                        (loc_npcs location)
                  else [''There is no one else here.'']);
               npcs_present = List.map_filter (present_npc (npcs s)) (loc_npcs location);
               exits = map fst (filter (\<lambda>(direction, target). target \<noteq> None) (loc_exits location));
               exit_part = [''Exits: '' @ (if exits \<noteq> [] then join '', '' exits else ''None'')]
           in Some \<lparr>view_description = join nl (head @ item_part @ npc_part @ exit_part),
                    view_items = items_present, view_npcs = npcs_present\<rparr>))"

text \<open>
  The search loop of \<open>get_item_in_location\<close> and \<open>get_item_in_inventory\<close>: the first
  id of the list that is in the catalog and one of whose non-empty names contains the
  query.
\<close>

fun find_item :: "(string \<times> item) list \<Rightarrow> string \<Rightarrow> string list \<Rightarrow> item option" where
  "find_item cat q [] = None"
| "find_item cat q (i # ids) =
     (case map_of cat i of
        None \<Rightarrow> find_item cat q ids
      | Some d \<Rightarrow>
          (let name_matches = [lower (or_else (item_id d) []), lower (or_else (item_name d) []),
                               lower (or_else (item_name_english d) []),
                               lower (or_else (item_japanese_name d) [])]
           in if list_ex (\<lambda>name. contains q name) (filter (\<lambda>name. name \<noteq> []) name_matches)
              then Some d else find_item cat q ids))"

definition get_item_in_location :: "engine \<Rightarrow> string \<Rightarrow> item option" where
  "get_item_in_location s target_item_name =
     (case map_of (locations s) (coords_to_str (current_coords s)) of
        None \<Rightarrow> None
      | Some location \<Rightarrow> find_item (items s) (lower target_item_name) (loc_items location))"

definition get_item_in_inventory :: "engine \<Rightarrow> string \<Rightarrow> item option" where
  "get_item_in_inventory s target_item_name =
     find_item (items s) (lower target_item_name) (player_inventory s)"

text \<open>The loop of \<open>get_npc_in_location\<close>; here empty names are not filtered out.\<close>

fun find_npc :: "(string \<times> npc) list \<Rightarrow> string \<Rightarrow> string list \<Rightarrow> npc option" where
  "find_npc cat q [] = None"
| "find_npc cat q (i # ids) =
     (case map_of cat i of
        None \<Rightarrow> find_npc cat q ids
      | Some d \<Rightarrow>
          (let name_matches = [lower (or_else (npc_id d) []), lower (or_else (npc_name d) []),
                               lower (or_else (npc_japanese_name d) []),
                               lower (or_else (npc_romaji d) [])]
           in if list_ex (\<lambda>name. contains q name) name_matches
              then Some d else find_npc cat q ids))"

definition get_npc_in_location :: "engine \<Rightarrow> string \<Rightarrow> npc option" where
  "get_npc_in_location s target_name =
     (case map_of (locations s) (coords_to_str (current_coords s)) of
        None \<Rightarrow> None
      | Some location \<Rightarrow> find_npc (npcs s) (lower target_name) (loc_npcs location))"

text \<open>\<open>get_ai_enhanced_look_description\<close>.\<close>

definition get_ai_enhanced_look_description :: "world \<Rightarrow> engine \<Rightarrow> string \<Rightarrow> string \<times> event list" where
  "get_ai_enhanced_look_description w s coords_str =
     (case map_of (locations s) coords_str of
        None \<Rightarrow> (''You can't seem to get a good look at this place.'', [])
      | Some location \<Rightarrow> generate_enhanced_look w)"


section \<open>Conversation\<close>

text \<open>
  \<open>handle_npc_interaction\<close>. A greeting, or a turn without \<open>HAS_AI_CLIENT\<close>, answers
  with the NPC's greeting and stores nothing. Any other turn asks the client, appends the
  exchange to this NPC's history and keeps the last five entries. The \<open>except\<close> branch
  is taken when a required key of the reply is missing.
\<close>

definition confused :: "string \<Rightarrow> string \<Rightarrow> string" where
  "confused name key =
     nl @ name @ '' seems confused and doesn't respond properly. (Error: '' @ sq @ key @ sq
       @ '')'' @ nl"

definition handle_npc_interaction ::
  "world \<Rightarrow> engine \<Rightarrow> npc \<Rightarrow> string \<Rightarrow> (py_error + string) \<times> engine \<times> event list" where
  "handle_npc_interaction w s npc player_input =
     (case npc_id npc of
        None \<Rightarrow> (Inl (KeyError ''id''), s, [])
      | Some nid \<Rightarrow>
     (case npc_name npc of
        None \<Rightarrow> (Inl (KeyError ''name''), s, [])
      | Some name \<Rightarrow>
          if player_input = [] \<or> \<not> has_ai_client w then
            (let greeting = (case npc_dialog npc of
                               Some (Some g) \<Rightarrow> g
                             | _ \<Rightarrow> or_else (npc_greeting npc) ''Hello!'')
             in (Inr (nl @ name @ '' says: \"'' @ greeting @ ''\"'' @ nl @ nl
                      @ ''You can have a conversation with NPCs using 'talk [name] [your message]'.''
                      @ nl),
                 s, []))
          else
            (let history = or_else (map_of (conversation_history s) nid) [];
                 (ai_response, ev) = npc_conversation w
             in case response_japanese ai_response of
                  None \<Rightarrow> (Inr (confused name ''response_japanese''), s, ev)
                | Some rj \<Rightarrow>
                (case response_english ai_response of
                   None \<Rightarrow> (Inr (confused name ''response_english''), s, ev)
                 | Some re \<Rightarrow>
                    (let response = nl @ name @ '' says in Japanese: \"'' @ rj @ ''\"'' @ nl
                           @ ''Translation: \"'' @ re @ ''\"'' @ nl
                           @ (case language_note ai_response of
                                Some note \<Rightarrow>
                                  if note \<noteq> [] then nl @ ''Language Note: '' @ note @ nl else []
                              | None \<Rightarrow> []);
                         appended = history @ [\<lparr>user = player_input, assistant = ai_response\<rparr>];
                         kept = (if length appended > 5 then drop (length appended - 5) appended
                                 else appended)
                     in (Inr response,
                         s\<lparr>conversation_history := AList.update nid kept (conversation_history s)\<rparr>,
                         ev))))))"

section \<open>Commands\<close>

text \<open>
  \<open>process_command\<close> returns a string, a location view, an examination dictionary or
  \<open>None\<close>, or it raises. The model returns the outcome together with the engine state
  after the command and the events of the command; a raise keeps the changes made before it.
\<close>

datatype response = Text string | LocationView location_view | NoLocation | Examination examination

datatype outcome = Returned response | Raised py_error

type_synonym result = "outcome \<times> engine \<times> event list"

definition nonempty_item :: "item option \<Rightarrow> item option" where
  "nonempty_item x = (case x of Some d \<Rightarrow> if d \<noteq> empty_item then Some d else None | None \<Rightarrow> None)"

definition nonempty_npc :: "npc option \<Rightarrow> npc option" where
  "nonempty_npc x = (case x of Some d \<Rightarrow> if d \<noteq> empty_npc then Some d else None | None \<Rightarrow> None)"

text \<open>A comprehension whose body may raise: the first error, or all the results.\<close>

fun collect :: "('a \<Rightarrow> py_error + 'b) \<Rightarrow> 'a list \<Rightarrow> py_error + 'b list" where
  "collect f [] = Inr []"
| "collect f (x # xs) =
     (case f x of
        Inl e \<Rightarrow> Inl e
      | Inr y \<Rightarrow> (case collect f xs of Inl e \<Rightarrow> Inl e | Inr ys \<Rightarrow> Inr (y # ys)))"

subsection \<open>look and examine\<close>

definition cmd_look :: "world \<Rightarrow> engine \<Rightarrow> string list \<Rightarrow> result" where
  "cmd_look w s args =
     (if args = [] then
        (case get_ai_enhanced_look_description w s (coords_to_str (current_coords s)) of
           (text, ev) \<Rightarrow> (Returned (Text text), s, ev))
      else (Returned (Text (''To look at something specific, use 'examine [target]'. ''
                            @ ''To look around, just type 'look'.'')), s, []))"

text \<open>
  An item of the inventory is examined through the client. For an item of the location
  the source calls \<open>self.get_ai_item_examination_details\<close>, a method the class does not
  have.
\<close>

definition cmd_examine :: "world \<Rightarrow> engine \<Rightarrow> string list \<Rightarrow> result" where
  "cmd_examine w s args =
     (if args \<noteq> [] then
        (let target_name = join '' '' args
         in case nonempty_item (get_item_in_inventory s target_name) of
              Some item_in_inventory \<Rightarrow>
                (case generate_item_examination_details w item_in_inventory of
                   (ai_response, ev) \<Rightarrow> (Returned (Examination ai_response), s, ev))
            | None \<Rightarrow>
                (case nonempty_item (get_item_in_location s target_name) of
                   Some item_in_location \<Rightarrow>
                     (Raised (AttributeError ''get_ai_item_examination_details''), s, [])
                 | None \<Rightarrow>
                     (Returned (Text (''You don't see a '' @ sq @ target_name @ sq
                                      @ '' here or in your inventory.'')), s, [])))
      else (Returned (Text ''What do you want to examine? (e.g., 'examine [item/person]')''), s, []))"

subsection \<open>go\<close>

definition direction_map :: "(string \<times> int \<times> int) list" where
  "direction_map =
     [(''north'', (0, 1)), (''south'', (0, - 1)), (''east'', (1, 0)), (''west'', (- 1, 0)),
      (jp_kita, (0, 1)), (jp_minami, (0, - 1)), (jp_higashi, (1, 0)), (jp_nishi, (- 1, 0))]"

definition go_direction :: "string \<Rightarrow> string list \<Rightarrow> string option" where
  "go_direction verb args =
     (if verb \<in> set [''go'', ''move'', jp_iku] \<and> args \<noteq> [] then
        (case args of a # _ \<Rightarrow> Some (lower a) | [] \<Rightarrow> None)
      else if verb \<in> set [''north'', ''n'', jp_kita] then Some ''north''
      else if verb \<in> set [''south'', ''s'', jp_minami] then Some ''south''
      else if verb \<in> set [''east'', ''e'', jp_higashi] then Some ''east''
      else if verb \<in> set [''west'', ''w'', jp_nishi] then Some ''west''
      else None)"

text \<open>\<open>random.choice(self.location_settings_pool)\<close> with the index the world draws.\<close>

definition random_choice :: "world \<Rightarrow> string list \<Rightarrow> string" where
  "random_choice w pool = pool ! (setting_draw w mod length pool)"

text \<open>
  The location at the target coordinate is generated and stored only when the grid has
  no entry for its key; then the player moves there and the view of the stored location
  is returned.
\<close>

definition cmd_go :: "world \<Rightarrow> engine \<Rightarrow> string \<Rightarrow> string list \<Rightarrow> result" where
  "cmd_go w s verb args =
     (case go_direction verb args of
        None \<Rightarrow> (Returned (Text ''Where do you want to go? (e.g., 'go north')''), s, [])
      | Some direction \<Rightarrow>
          if direction = [] then
            (Returned (Text ''Where do you want to go? (e.g., 'go north')''), s, [])
          else
          (case map_of direction_map direction of
             None \<Rightarrow> (Returned (Text (sq @ direction @ sq @ '' is not a valid direction.'')), s, [])
           | Some (dx, dy) \<Rightarrow>
               (let target_coords = (fst (current_coords s) + dx, snd (current_coords s) + dy);
                    target_coords_str = coords_to_str target_coords;
                    (s1, ev) =
                      (if map_of (locations s) target_coords_str = None then
                         (let new_setting = random_choice w location_settings_pool;
                              (new_location_data, s', ev') =
                                 generate_location_data w s target_coords new_setting
                          in (s'\<lparr>locations :=
                                   AList.update target_coords_str new_location_data (locations s')\<rparr>,
                              ev'))
                       else (s, []));
                    s2 = s1\<lparr>current_coords := target_coords\<rparr>
                in (case get_location_description s2 target_coords_str of
                      Some view \<Rightarrow> Returned (LocationView view)
                    | None \<Rightarrow> Returned NoLocation,
                    s2, ev))))"

subsection \<open>take, drop and inventory\<close>

definition cmd_take :: "engine \<Rightarrow> string list \<Rightarrow> result" where
  "cmd_take s args =
     (let target_item_name = join '' '' args
      in case nonempty_item (get_item_in_location s target_item_name) of
           None \<Rightarrow> (Returned (Text (''You don't see a '' @ sq @ target_item_name @ sq @ '' here.'')),
                     s, [])
         | Some item_to_take \<Rightarrow>
             if \<not> or_else (item_can_be_taken item_to_take) False then
               (case item_name item_to_take of
                  None \<Rightarrow> (Raised (KeyError ''name''), s, [])
                | Some name \<Rightarrow>
                    (Returned (Text (''You can't take the '' @ name @ '' (''
                                     @ or_else (item_name_english item_to_take) []
                                     @ ''). It seems fixed in place.'')), s, []))
             else
               (case item_id item_to_take of
                  None \<Rightarrow> (Raised (KeyError ''id''), s, [])
                | Some iid \<Rightarrow>
                    (let current_coords_str = coords_to_str (current_coords s)
                     in case map_of (locations s) current_coords_str of
                          None \<Rightarrow> (Raised (KeyError current_coords_str), s, [])
                        | Some location \<Rightarrow>
                            (let location' =
                                   (if iid \<in> set (loc_items location)
                                    then location\<lparr>loc_items := remove1 iid (loc_items location)\<rparr>
                                    else location);
                                 s' = s\<lparr>locations :=
                                           AList.update current_coords_str location' (locations s),
                                        player_inventory := player_inventory s @ [iid]\<rparr>
                             in case item_name item_to_take of
                                  None \<Rightarrow> (Raised (KeyError ''name''), s', [])
                                | Some name \<Rightarrow>
                                    (Returned (Text (''You take the '' @ name @ '' (''
                                                     @ or_else (item_name_english item_to_take) []
                                                     @ '').'')), s', [])))))"

definition cmd_drop :: "engine \<Rightarrow> string list \<Rightarrow> result" where
  "cmd_drop s args =
     (let target_item_name = join '' '' args
      in case nonempty_item (get_item_in_inventory s target_item_name) of
           None \<Rightarrow> (Returned (Text (''You don't have a '' @ sq @ target_item_name @ sq
                                    @ '' in your inventory.'')), s, [])
         | Some item_to_drop \<Rightarrow>
             (case item_id item_to_drop of
                None \<Rightarrow> (Raised (KeyError ''id''), s, [])
              | Some iid \<Rightarrow>
                  (let current_coords_str = coords_to_str (current_coords s)
                   in case map_of (locations s) current_coords_str of
                        None \<Rightarrow> (Raised (KeyError current_coords_str), s, [])
                      | Some location \<Rightarrow>
                          (let inventory' =
                                 (if iid \<in> set (player_inventory s)
                                  then remove1 iid (player_inventory s) else player_inventory s);
                               location' = location\<lparr>loc_items := loc_items location @ [iid]\<rparr>;
                               s' = s\<lparr>locations :=
                                         AList.update current_coords_str location' (locations s),
                                      player_inventory := inventory'\<rparr>
                           in case item_name item_to_drop of
                                None \<Rightarrow> (Raised (KeyError ''name''), s', [])
                              | Some name \<Rightarrow>
                                  (Returned (Text (''You drop the '' @ name @ '' (''
                                                   @ or_else (item_name_english item_to_drop) []
                                                   @ '').'')), s', [])))))"

definition inventory_line :: "(string \<times> item) list \<Rightarrow> string \<Rightarrow> py_error + string" where
  "inventory_line cat i =
     (case present_item cat i of
        Some d \<Rightarrow> (case item_name d of
                     None \<Rightarrow> Inl (KeyError ''name'')
                   | Some name \<Rightarrow> Inr (''- '' @ name @ '' ('' @ or_else (item_name_english d) []
                                        @ '')''))
      | None \<Rightarrow> Inr (''- Unknown item ('' @ i @ '')''))"

definition cmd_inventory :: "engine \<Rightarrow> result" where
  "cmd_inventory s =
     (if player_inventory s = [] then (Returned (Text ''Your inventory is empty.''), s, [])
      else case collect (inventory_line (items s)) (player_inventory s) of
             Inl e \<Rightarrow> (Raised e, s, [])
           | Inr inventory_list \<Rightarrow>
               (Returned (Text (''You are carrying:'' @ nl @ join nl inventory_list)), s, []))"

subsection \<open>talk\<close>

definition npc_names_here :: "(string \<times> npc) list \<Rightarrow> string list \<Rightarrow> py_error + string list" where
  "npc_names_here cat ids =
     collect (\<lambda>i. case map_of cat i of
                     Some d \<Rightarrow> (case npc_name d of None \<Rightarrow> Inl (KeyError ''name'')
                                                 | Some name \<Rightarrow> Inr name)
                   | None \<Rightarrow> Inl (KeyError i))
             (filter (\<lambda>i. map_of cat i \<noteq> None) ids)"

text \<open>
  The first half of the talk branch determines the NPC and the message: the NPC whose
  name matches the first word, else the only NPC present; with several NPCs and no
  match the branch returns at once (\<open>Inl\<close>).
\<close>

definition talk_target :: "engine \<Rightarrow> string list \<Rightarrow> outcome + (npc option \<times> string)" where
  "talk_target s args =
     (let npcs_here_ids = (case map_of (locations s) (coords_to_str (current_coords s)) of
                             Some location \<Rightarrow> loc_npcs location | None \<Rightarrow> []);
          num_npcs_here = length npcs_here_ids;
          potential_npc_name = (case args of a # _ \<Rightarrow> a | [] \<Rightarrow> [])
      in case nonempty_npc (get_npc_in_location s (lower potential_npc_name)) of
           Some d \<Rightarrow> Inr (Some d, join '' '' (tl args))
         | None \<Rightarrow>
             if num_npcs_here = 1 then
               Inr (nonempty_npc (map_of (npcs s) (npcs_here_ids ! 0)), join '' '' args)
             else if num_npcs_here > 1 then
               (case npc_names_here (npcs s) npcs_here_ids of
                  Inl e \<Rightarrow> Inl (Raised e)
                | Inr names \<Rightarrow>
                    Inl (Returned (Text (''Who do you want to talk to? Options: ''
                                         @ join '', '' names))))
             else Inr (None, []))"

text \<open>The second half talks to the NPC, or says that there is none.\<close>

definition cmd_talk :: "world \<Rightarrow> engine \<Rightarrow> string list \<Rightarrow> result" where
  "cmd_talk w s args =
     (case talk_target s args of
        Inl out \<Rightarrow> (out, s, [])
      | Inr (Some target_npc, player_message) \<Rightarrow>
          (case handle_npc_interaction w s target_npc player_message of
             (Inl e, s', ev) \<Rightarrow> (Raised e, s', ev)
           | (Inr text, s', ev) \<Rightarrow> (Returned (Text text), s', ev))
      | Inr (None, player_message) \<Rightarrow>
          (let npcs_here_ids = (case map_of (locations s) (coords_to_str (current_coords s)) of
                                  Some location \<Rightarrow> loc_npcs location | None \<Rightarrow> []);
               potential_npc_name = (case args of a # _ \<Rightarrow> a | [] \<Rightarrow> [])
           in if length npcs_here_ids > 0 then
                (case npc_names_here (npcs s) npcs_here_ids of
                   Inl e \<Rightarrow> (Raised e, s, [])
                 | Inr names \<Rightarrow>
                     (Returned (Text (''You see '' @ join '', '' names @ '' here, but no one named ''
                                      @ sq @ potential_npc_name @ sq @ ''.'')), s, []))
              else (Returned (Text ''There is no one here to talk to.''), s, [])))"

subsection \<open>themes, theme and learn\<close>

definition empty_theme :: theme where
  "empty_theme = \<lparr>theme_name = None, theme_description = None, theme_words = None\<rparr>"

definition empty_word :: word where
  "empty_word = \<lparr>word_japanese = None, word_romaji = None, word_english = None,
     word_part_of_speech = None, word_jlpt_level = None, word_example_sentence = None,
     word_example_translation = None, word_context_categories = None,
     word_related_words = None, word_usage_notes = None\<rparr>"

definition cmd_themes :: "engine \<Rightarrow> result" where
  "cmd_themes s =
     (if vocabulary_themes s = [] then
        (Returned (Text ''No vocabulary themes are currently loaded.''), s, [])
      else
        (let theme_list =
               map (\<lambda>(theme_id, theme_data).
                      ''- **'' @ or_else (theme_name theme_data) theme_id @ ''**: ''
                        @ or_else (theme_description theme_data) ''No description'')
                   (vocabulary_themes s)
         in (Returned (Text (''Available Vocabulary Themes:'' @ nl @ join nl (sort theme_list)
                             @ nl @ nl @ ''Use 'theme [theme_name]' to study a specific theme.'')),
             s, [])))"

definition theme_word_line :: "(string \<times> word) list \<Rightarrow> string \<Rightarrow> py_error + string" where
  "theme_word_line vocab vocab_id =
     (case map_of vocab vocab_id of
        None \<Rightarrow> Inr (''- (Word ID '' @ vocab_id @ '' not found)'')
      | Some word_data \<Rightarrow>
          if word_data = empty_word then Inr (''- (Word ID '' @ vocab_id @ '' not found)'')
          else (case word_japanese word_data of
                  None \<Rightarrow> Inl (KeyError ''japanese'')
                | Some j \<Rightarrow>
                (case word_romaji word_data of
                   None \<Rightarrow> Inl (KeyError ''romaji'')
                 | Some r \<Rightarrow>
                 (case word_english word_data of
                    None \<Rightarrow> Inl (KeyError ''english'')
                  | Some e \<Rightarrow> Inr (''- '' @ j @ '' ('' @ r @ ''): '' @ e)))))"

definition cmd_theme :: "engine \<Rightarrow> string list \<Rightarrow> result" where
  "cmd_theme s args =
     (let target_theme_name = join '' '' args;
          not_found = (Returned (Text (''Could not find a vocabulary theme named '' @ sq
                                       @ target_theme_name @ sq
                                       @ ''. Type 'themes' to see the list.'')), s, [])
      in case find (\<lambda>(theme_id, theme_data).
                      lower target_theme_name = lower (or_else (theme_name theme_data) [])
                      \<or> lower target_theme_name = lower theme_id)
                   (vocabulary_themes s) of
           None \<Rightarrow> not_found
         | Some (theme_id, found_theme) \<Rightarrow>
             if found_theme = empty_theme then not_found
             else
               (let name = or_else (theme_name found_theme) target_theme_name;
                    vocab_ids = or_else (theme_words found_theme) []
                in if vocab_ids = [] then
                     (Returned (Text (''The theme '' @ sq @ name @ sq
                          @ '' currently has no vocabulary words associated with it.'')), s, [])
                   else
                     (case collect (theme_word_line (vocabulary s)) vocab_ids of
                        Inl e \<Rightarrow> (Raised e, s, [])
                      | Inr word_list \<Rightarrow>
                          (Returned (Text (''Vocabulary for Theme: **'' @ name @ ''**'' @ nl
                                           @ join nl (sort word_list))), s, []))))"

text \<open>An \<open>if x:\<close> on an optional string or list: it is there and not empty.\<close>

definition truthy :: "'a list option \<Rightarrow> bool" where
  "truthy x = (case x of Some v \<Rightarrow> v \<noteq> [] | None \<Rightarrow> False)"

definition cmd_learn :: "engine \<Rightarrow> string list \<Rightarrow> result" where
  "cmd_learn s args =
     (let target_word = lower (join '' '' args);
          not_found = (Returned (Text (''Could not find the word '' @ sq @ target_word @ sq
                                       @ '' in the current vocabulary list.'')), s, [])
      in case find (\<lambda>(word_id, word_data).
                      target_word = lower (or_else (word_japanese word_data) [])
                      \<or> target_word = lower (or_else (word_romaji word_data) [])
                      \<or> target_word = lower (or_else (word_english word_data) []))
                   (vocabulary s) of
           None \<Rightarrow> not_found
         | Some (word_id, d) \<Rightarrow>
             if d = empty_word then not_found
             else
               (case word_japanese d of
                  None \<Rightarrow> (Raised (KeyError ''japanese''), s, [])
                | Some j \<Rightarrow>
                    (Returned (Text (
                       ''Learning about: **'' @ j @ ''**'' @ nl @ nl
                       @ ''- **Romaji:** '' @ or_else (word_romaji d) ''N/A'' @ nl
                       @ ''- **English:** '' @ or_else (word_english d) ''N/A'' @ nl
                       @ ''- **Part of Speech:** '' @ or_else (word_part_of_speech d) ''N/A'' @ nl
                       @ ''- **JLPT Level:** '' @ or_else (word_jlpt_level d) ''N/A'' @ nl @ nl
                       @ (if truthy (word_example_sentence d) then
                            ''**Example:**'' @ nl
                            @ ''  '' @ or_else (word_example_sentence d) [] @ nl
                            @ ''  (Translation: '' @ or_else (word_example_translation d) ''N/A''
                            @ '')'' @ nl @ nl
                          else [])
                       @ (if truthy (word_context_categories d) then
                            ''**Context:** '' @ join '', '' (or_else (word_context_categories d) [])
                            @ nl
                          else [])
                       @ (if truthy (word_related_words d) then
                            ''**Related:** '' @ join '', '' (or_else (word_related_words d) []) @ nl
                          else [])
                       @ (if truthy (word_usage_notes d) then
                            nl @ ''**Usage Notes:** '' @ or_else (word_usage_notes d) [] @ nl
                          else []))), s, [])))"

subsection \<open>help and the dispatcher\<close>

definition help_text :: string where
  "help_text = join nl
     [[],
      ''Commands:'',
      ''- look: Look at your surroundings'',
      ''- examine [object]: Look closely at an item'',
      ''- go [direction]: Move in a direction (north, south, east, west)'',
      ''- take [item name]: Pick up an item from the location'',
      ''- drop [item name]: Leave an item from your inventory here'',
      ''- inventory/inv: Check the items you are carrying'',
      ''- talk [person]: Talk to a person in the current location'',
      ''- talk [person] [message]: Have a conversation with an NPC'',
      ''- themes: List available vocabulary themes'',
      ''- theme [theme_name]: Show words for a specific theme'',
      ''- learn [word]: Show detailed information about a specific vocabulary word'',
      ''- help: Show this help'',
      ''- quit/exit: Exit the game'',
      ''            '']"

definition go_verbs :: "string list" where
  "go_verbs = [''go'', ''move'', ''north'', ''south'', ''east'', ''west'', ''n'', ''s'', ''e'', ''w'',
               jp_iku, jp_kita, jp_minami, jp_higashi, jp_nishi]"

definition unknown_command :: "string \<Rightarrow> string" where
  "unknown_command command =
     ''I don't understand '' @ sq @ command @ sq @ ''. Type 'help' for a list of commands.''"

text \<open>
  \<open>process_command\<close>. The words of the lower-cased command are computed first, and the
  first test reads \<open>parts[0]\<close>: on a command without a word this is an \<open>IndexError\<close>.
  The branches follow the \<open>if\<close>/\<open>elif\<close> chain of the source in its order; \<open>verb\<close> is
  \<open>parts[0]\<close> and \<open>args\<close> is \<open>parts[1:]\<close>.
\<close>

definition process_command :: "world \<Rightarrow> engine \<Rightarrow> string \<Rightarrow> result" where
  "process_command w s command =
     (case split (lower command) of
        [] \<Rightarrow> (Raised IndexError, s, [])
      | verb # args \<Rightarrow>
          if verb \<in> set [''look'', ''l'', jp_miru] then cmd_look w s args
          else if verb = ''examine'' then cmd_examine w s args
          else if verb \<in> set go_verbs then cmd_go w s verb args
          else if verb \<in> set [''take'', ''get'', jp_toru] \<and> args \<noteq> [] then cmd_take s args
          else if verb \<in> set [''drop'', jp_suteru] \<and> args \<noteq> [] then cmd_drop s args
          else if verb \<in> set [''inventory'', ''inv'', jp_mochimono] then cmd_inventory s
          else if verb \<in> set [''talk'', ''speak'', jp_hanasu] \<and> args \<noteq> [] then cmd_talk w s args
          else if verb = ''themes'' then cmd_themes s
          else if verb = ''theme'' \<and> args \<noteq> [] then cmd_theme s args
          else if verb = ''learn'' \<and> args \<noteq> [] then cmd_learn s args
          else if verb \<in> set [''help'', jp_herupu] then (Returned (Text help_text), s, [])
          else if verb \<in> set [''quit'', ''exit'', jp_shuryo] then (Returned (Text ''exit''), s, [])
          else (Returned (Text (unknown_command command)), s, []))"


section \<open>Start-up and runs\<close>

text \<open>
  \<open>load_game_data\<close>: the catalogs and histories are emptied, the vocabulary files are
  read (their contents are parameters; \<open>None\<close> is a themes file that cannot be read),
  and the start location is generated with a fixed setting unless the grid has it.
\<close>

definition load_game_data ::
  "world \<Rightarrow> (string \<times> word) list \<Rightarrow> (string \<times> theme) list option \<Rightarrow> engine
     \<Rightarrow> engine \<times> event list" where
  "load_game_data w vocab_data themes_data s =
     (let s1 = s\<lparr>items := [], npcs := [], conversation_history := []\<rparr>;
          s2 = s1\<lparr>vocabulary := fold (\<lambda>(k, d). AList.update k d) vocab_data (vocabulary s1)\<rparr>;
          s3 = s2\<lparr>vocabulary_themes :=
                    (case themes_data of
                       Some ts \<Rightarrow> fold (\<lambda>(k, d). AList.update k d) ts []
                     | None \<Rightarrow> [])\<rparr>;
          start_coords_str = coords_to_str (0, 0);
          (s4, ev) =
            (if map_of (locations s3) start_coords_str = None then
               (let (start_location_data, s', ev') =
                      generate_location_data w s3 (0, 0) ''Quiet Shopping Street''
                in (s'\<lparr>locations :=
                         AList.update start_coords_str start_location_data (locations s')\<rparr>, ev'))
             else (s3, []))
      in (s4\<lparr>current_coords := (0, 0)\<rparr>, ev))"

text \<open>
  A session: the commands are processed one after the other, each in its own world. A
  command that raised leaves the engine as it is at the raise, and the next command
  works on that engine, as in the web front end.
\<close>

fun run :: "engine \<Rightarrow> (world \<times> string) list \<Rightarrow> engine \<times> event list" where
  "run s [] = (s, [])"
| "run s ((w, command) # rest) =
     (case process_command w s command of
        (out, s', ev) \<Rightarrow> (case run s' rest of (s'', ev') \<Rightarrow> (s'', ev @ ev')))"


section \<open>The image client\<close>

text \<open>
  \<open>ImageClient\<close> works on the files under \<open>data/images\<close>, the Eden AI key and two
  HTTP exchanges: the generation request and the download of the generated image. The
  disk is the list of the paths that exist; creating the directory and writing a file
  are taken to succeed. A body is what the code reads of the JSON answer: the two URL
  fields of \<open>data["openai"]["items"][0]\<close>, or that there is no such item.
\<close>

datatype image_body = NoItems | FirstItem "string option" "string option"

datatype post_reply = PostRaised | PostResponse nat "image_body option"

datatype get_reply = GetRaised | GetResponse nat


record image_world =
  edenai_api_key :: "string option"
  post_answer :: post_reply \<comment> \<open>the body is \<open>None\<close> when \<open>response.json()\<close> raises\<close>
  get_answer :: get_reply





section \<open>Notions the properties are stated with\<close>

text \<open>The keys of a dictionary.\<close>

definition keys :: "(string \<times> 'a) list \<Rightarrow> string set" where
  "keys d = fst ` set d"

text \<open>
  All places an item can be in: the item lists of the locations of the grid, one after
  the other, and then the inventory.
\<close>

definition holdings :: "engine \<Rightarrow> string list" where
  "holdings s = concat (map (\<lambda>(k, l). loc_items l) (locations s)) @ player_inventory s"

text \<open>The ids the log lines of a run give to new items and to new NPCs, in order.\<close>

definition item_ids_added :: "event list \<Rightarrow> string list" where
  "item_ids_added evs = List.map_filter (\<lambda>e. case e of ItemAdded i \<Rightarrow> Some i | _ \<Rightarrow> None) evs"

definition npc_ids_added :: "event list \<Rightarrow> string list" where
  "npc_ids_added evs = List.map_filter (\<lambda>e. case e of NpcAdded i \<Rightarrow> Some i | _ \<Rightarrow> None) evs"

definition requests :: "event list \<Rightarrow> api list" where
  "requests evs = List.map_filter (\<lambda>e. case e of Request a \<Rightarrow> Some a | _ \<Rightarrow> None) evs"

text \<open>A conversation: turns with one NPC, one after the other.\<close>

fun converse :: "engine \<Rightarrow> npc \<Rightarrow> (world \<times> string) list \<Rightarrow> engine" where
  "converse s npc [] = s"
| "converse s npc ((w, player_input) # rest) =
     converse (fst (snd (handle_npc_interaction w s npc player_input))) npc rest"

text \<open>The exchange a turn stores: the player's words and the turn the client returned.\<close>

definition exchange_of :: "world \<times> string \<Rightarrow> exchange" where
  "exchange_of t = \<lparr>user = snd t, assistant = fst (npc_conversation (fst t))\<rparr>"


text \<open>The move a direction word makes.\<close>

definition moved :: "int \<times> int \<Rightarrow> string \<Rightarrow> int \<times> int" where
  "moved c direction =
     (case map_of direction_map direction of
        Some d \<Rightarrow> (fst c + fst d, snd c + snd d)
      | None \<Rightarrow> c)"

text \<open>The verbs of the command table of \<open>process_command\<close>.\<close>

definition known_verbs :: "string list" where
  "known_verbs = [''look'', ''l'', jp_miru, ''examine''] @ go_verbs
     @ [''take'', ''get'', jp_toru, ''drop'', jp_suteru, ''inventory'', ''inv'', jp_mochimono,
        ''talk'', ''speak'', jp_hanasu, ''themes'', ''theme'', ''learn'', ''help'', jp_herupu,
        ''quit'', ''exit'', jp_shuryo]"



text \<open>\<open>history[-5:]\<close>: the last five entries of a list, or all of a shorter list.\<close>

definition last_five :: "'a list \<Rightarrow> 'a list" where
  "last_five xs = drop (length xs - 5) xs"


text \<open>
  The consistency of catalogs, grid and inventory between commands: every item of the
  catalog carries its key as id and has a name; every id of a catalog ends in an
  underscore and a counter below the size of that catalog; whatever a location or the
  inventory holds is in the catalog; and every item of the catalog occurs exactly once
  in all item lists and the inventory together.
\<close>

definition well_formed :: "engine \<Rightarrow> bool" where
  "well_formed s \<longleftrightarrow>
     (\<forall>(k, d) \<in> set (items s). item_id d = Some k \<and> item_name d \<noteq> None) \<and>
     (\<forall>k \<in> keys (items s). \<exists>p n. k = p @ ''_'' @ str_nat n \<and> n < length (items s)) \<and>
     (\<forall>k \<in> keys (npcs s). \<exists>p n. k = p @ ''_'' @ str_nat n \<and> n < length (npcs s)) \<and>
     set (holdings s) \<subseteq> keys (items s) \<and>
     (\<forall>i \<in> keys (items s). count_list (holdings s) i = 1)"

text \<open>The grid has the location the player is at.\<close>

definition located :: "engine \<Rightarrow> bool" where
  "located s \<longleftrightarrow> map_of (locations s) (coords_to_str (current_coords s)) \<noteq> None"

text \<open>
  What a step from \<open>s\<close> to \<open>s'\<close> with events \<open>ev\<close> keeps: consistency, the player's
  location, and the catalogs' keys; the ids its log lines name are new keys, each named
  once.
\<close>

definition step_ok :: "engine \<Rightarrow> engine \<Rightarrow> event list \<Rightarrow> bool" where
  "step_ok s s' ev \<longleftrightarrow>
     well_formed s' \<and> (located s \<longrightarrow> located s') \<and>
     keys (items s) \<subseteq> keys (items s') \<and> keys (npcs s) \<subseteq> keys (npcs s') \<and>
     distinct (item_ids_added ev) \<and> set (item_ids_added ev) \<subseteq> keys (items s') - keys (items s) \<and>
     distinct (npc_ids_added ev) \<and> set (npc_ids_added ev) \<subseteq> keys (npcs s') - keys (npcs s)"


section \<open>Example inputs\<close>

text \<open>
  A small world for running the definitions: the text model answers every request
  (\<open>answering_world\<close>), fails every request (\<open>failing_world\<close>), or offers an item that
  cannot be taken (\<open>fixture_world\<close>); \<open>offline_world\<close> has no key at all.
\<close>

definition paper_lantern :: item where
  "paper_lantern = \<lparr>item_id = None, item_name = Some ''chouchin'',
     item_name_english = Some ''Lantern'', item_name_romaji = Some ''chouchin'',
     item_japanese_name = None, item_description = Some ''A paper lantern.'',
     item_can_be_taken = Some True, item_vocabulary = Some [''akari'']\<rparr>"

definition stone_lantern :: item where
  "stone_lantern = \<lparr>item_id = None, item_name = Some ''tourou'',
     item_name_english = Some ''Stone Lantern'', item_name_romaji = Some ''tourou'',
     item_japanese_name = None, item_description = Some ''A mossy stone lantern.'',
     item_can_be_taken = Some False, item_vocabulary = Some [''ishi'']\<rparr>"

definition shopkeeper :: npc where
  "shopkeeper = \<lparr>npc_id = None, npc_name = Some ''Tanaka'',
     npc_name_english = Some ''Kenji Tanaka'', npc_japanese_name = None, npc_romaji = None,
     npc_short_description = Some ''A shopkeeper.'', npc_role = Some ''Shopkeeper'',
     npc_personality = Some ''Friendly'', npc_greeting = Some ''konnichiwa'',
     npc_dialog = None, npc_vocabulary = Some [''mise'']\<rparr>"

definition answering_world :: world where
  "answering_world = \<lparr>has_ai_client = True, api_key_set = True, setting_draw = 4,
     npc_roll = True,
     location_reply = Parsed [(''name'', ''Old Gate''), (''japanese_name'', ''furui mon''),
                              (''description'', ''A weathered wooden gate.'')],
     item_reply = Parsed paper_lantern, npc_reply = Parsed shopkeeper,
     talk_reply = Parsed \<lparr>response_japanese = Some ''hai'', response_english = Some ''Yes.'',
                            language_note = None\<rparr>,
     look_reply = Parsed ''A quiet street.'',
     exam_reply = Parsed \<lparr>exam_description = Some ''It glows.'', exam_vocabulary = Some []\<rparr>\<rparr>"

definition failing_world :: world where
  "failing_world = \<lparr>has_ai_client = True, api_key_set = True, setting_draw = 4,
     npc_roll = True,
     location_reply = Failed ''timeout'', item_reply = Failed ''timeout'',
     npc_reply = Failed ''timeout'', talk_reply = Failed ''timeout'',
     look_reply = Failed ''timeout'', exam_reply = Failed ''timeout''\<rparr>"

definition offline_world :: world where
  "offline_world = \<lparr>has_ai_client = False, api_key_set = False, setting_draw = 1,
     npc_roll = True,
     location_reply = Failed [], item_reply = Failed [], npc_reply = Failed [],
     talk_reply = Failed [], look_reply = Failed [], exam_reply = Failed []\<rparr>"

definition fixture_world :: world where
  "fixture_world = \<lparr>has_ai_client = True, api_key_set = True, setting_draw = 3,
     npc_roll = False,
     location_reply = Failed ''timeout'', item_reply = Parsed stone_lantern,
     npc_reply = Failed ''timeout'', talk_reply = Failed ''timeout'',
     look_reply = Failed ''timeout'', exam_reply = Failed ''timeout''\<rparr>"

text \<open>The engine after start-up in the answering world, and in the fixture world.\<close>

definition started :: engine where
  "started = fst (load_game_data answering_world [] None (engine_init ''N5''))"

definition started_with_fixture :: engine where
  "started_with_fixture = fst (load_game_data fixture_world [] None (engine_init ''N5''))"

text \<open>The shopkeeper as the catalog keeps him, with the id of the start location.\<close>

definition stored_shopkeeper :: npc where
  "stored_shopkeeper = shopkeeper\<lparr>npc_id := Some ''npc_0,0_0''\<rparr>"

text \<open>Seven turns of talk, the third of them in the failing world.\<close>

definition seven_turns :: "(world \<times> string) list" where
  "seven_turns = [(answering_world, ''one''), (answering_world, ''two''), (failing_world, ''three''),
                  (answering_world, ''four''), (answering_world, ''five''),
                  (answering_world, ''six''), (answering_world, ''seven'')]"



definition image_ready :: image_world where
  "image_ready = \<lparr>edenai_api_key = Some ''key'',
     post_answer = PostResponse 200 (Some (FirstItem (Some ''https://cdn/1.png'') None)),
     get_answer = GetResponse 200\<rparr>"

section \<open>Properties\<close>

subsection \<open>Movement\<close>

lemma go_command_words:
  "d \<in> set [''north'', ''south'', ''east'', ''west''] \<Longrightarrow> split (lower (''go '' @ d)) = [''go'', d]"
  by (auto simp: split_def lower_def lower_char_def is_space_def)

lemma lower_direction:
  "d \<in> set [''north'', ''south'', ''east'', ''west''] \<Longrightarrow> lower d = d \<and> d \<noteq> []"
  by (auto simp: lower_def lower_char_def)

lemma direction_delta:
  "map_of direction_map ''north'' = Some (0, 1)"
  "map_of direction_map ''south'' = Some (0, - 1)"
  "map_of direction_map ''east'' = Some (1, 0)"
  "map_of direction_map ''west'' = Some (- 1, 0)"
  by (simp_all add: direction_map_def)

lemma direction_known:
  "d \<in> set [''north'', ''south'', ''east'', ''west''] \<Longrightarrow> \<exists>delta. map_of direction_map d = Some delta"
  by (auto simp: direction_delta)

lemma process_go:
  "split (lower command) = [''go'', d] \<Longrightarrow> process_command w s command = cmd_go w s ''go'' [d]"
  by (simp add: process_command_def go_verbs_def jp_miru_def)

lemma cmd_go_coords:
  assumes "map_of direction_map (lower d) = Some delta" "d \<noteq> []"
  shows "current_coords (fst (snd (cmd_go w s ''go'' [d]))) =
           (fst (current_coords s) + fst delta, snd (current_coords s) + snd delta)"
  using assms
  by (cases delta)
     (simp add: cmd_go_def go_direction_def lower_def Let_def split: prod.splits option.splits)

lemma go_moves:
  assumes "d \<in> set [''north'', ''south'', ''east'', ''west'']"
  shows "current_coords (fst (snd (process_command w s (''go '' @ d)))) = moved (current_coords s) d"
proof -
  from assms obtain delta where delta: "map_of direction_map d = Some delta"
    using direction_known by blast
  have low: "lower d = d" "d \<noteq> []" using lower_direction[OF assms] by simp_all
  have "process_command w s (''go '' @ d) = cmd_go w s ''go'' [d]"
    by (rule process_go[OF go_command_words[OF assms]])
  then show ?thesis
    using cmd_go_coords[of d delta w s] delta low
    by (simp add: moved_def)
qed

text \<open>
  C3: the direction table gives north (0,1), south (0,-1), east (1,0) and west (-1,0),
  a \<open>go\<close> command moves the player by the delta of its direction, and from every
  coordinate \<open>go north\<close> followed by \<open>go south\<close> brings the player back, whatever the
  outside world answers in between.
\<close>

theorem north_then_south_returns:
  "map_of direction_map ''north'' = Some (0, 1) \<and>
   map_of direction_map ''south'' = Some (0, - 1) \<and>
   map_of direction_map ''east'' = Some (1, 0) \<and>
   map_of direction_map ''west'' = Some (- 1, 0) \<and>
   current_coords (fst (snd (process_command w s ''go north''))) =
     (fst (current_coords s), snd (current_coords s) + 1) \<and>
   current_coords (fst (snd (process_command w s ''go south''))) =
     (fst (current_coords s), snd (current_coords s) - 1) \<and>
   current_coords (fst (snd (process_command w s ''go east''))) =
     (fst (current_coords s) + 1, snd (current_coords s)) \<and>
   current_coords (fst (snd (process_command w s ''go west''))) =
     (fst (current_coords s) - 1, snd (current_coords s)) \<and>
   current_coords
     (fst (snd (process_command w2 (fst (snd (process_command w1 s ''go north''))) ''go south'')))
     = current_coords s"
  using go_moves[of "''north''" w s] go_moves[of "''south''" w s] go_moves[of "''east''" w s]
    go_moves[of "''west''" w s] go_moves[of "''north''" w1 s]
    go_moves[of "''south''" w2 "fst (snd (process_command w1 s ''go north''))"]
  by (simp add: direction_delta moved_def)

theorem north_then_south_returns_witness:
  "current_coords
     (fst (snd (process_command failing_world
        (fst (snd (process_command answering_world started ''go north''))) ''go south'')))
     = (0, 0) \<and> current_coords started = (0, 0)"
proof -
  have "current_coords started = (0, 0)"
    by (simp add: started_def load_game_data_def Let_def split: prod.splits)
  then show ?thesis
    using north_then_south_returns[of answering_world started failing_world answering_world]
    by simp
qed

subsection \<open>Commands without a word, and unknown verbs\<close>

text \<open>
  C7: a command that has no word at all (the empty string, or white space only) makes
  \<open>process_command\<close> raise \<open>IndexError\<close> at \<open>parts[0]\<close> instead of
  answering with the fixed message.
\<close>

theorem empty_command_raises:
  "process_command w s [] = (Raised IndexError, s, []) \<and>
   process_command w s ''   '' = (Raised IndexError, s, [])"
  by (simp add: process_command_def split_def lower_def lower_char_def is_space_def)

theorem empty_command_raises_witness:
  "fst (process_command offline_world started []) = Raised IndexError"
  using empty_command_raises[of offline_world started] by simp

text \<open>
  With at least one word, a verb outside the command table gets the fixed message and
  the state stays as it was.
\<close>

lemma unknown_verb_message:
  assumes "split (lower command) = verb # args" "verb \<notin> set known_verbs"
  shows "process_command w s command = (Returned (Text (unknown_command command)), s, [])"
  using assms by (simp add: process_command_def known_verbs_def)

lemma unknown_verb_example:
  "process_command offline_world started ''dance wildly''
     = (Returned (Text (''I don't understand 'dance wildly'. Type 'help' for a list of commands.'')),
        started, [])"
proof -
  have "split (lower ''dance wildly'') = [''dance'', ''wildly'']"
    by (simp add: split_def lower_def lower_char_def is_space_def)
  moreover have "''dance'' \<notin> set known_verbs"
    by (simp add: known_verbs_def go_verbs_def jp_miru_def jp_iku_def jp_kita_def jp_minami_def
        jp_higashi_def jp_nishi_def jp_toru_def jp_suteru_def jp_mochimono_def jp_hanasu_def
        jp_herupu_def jp_shuryo_def)
  ultimately show ?thesis
    using unknown_verb_message[of "''dance wildly''" "''dance''" "[''wildly'']"]
    by (simp add: unknown_command_def sq_def)
qed

text \<open>
  A known verb can raise as well: examining an item that lies in the location reaches
  the call of the missing method.
\<close>

lemma examine_item_of_location_raises:
  "process_command offline_world started ''examine lantern''
     = (Raised (AttributeError ''get_ai_item_examination_details''), started, [])"
  by code_simp

subsection \<open>Images\<close>




subsection \<open>Conversation turns\<close>

lemma npc_conversation_fields:
  "response_japanese (fst (npc_conversation w)) \<noteq> None \<and>
   response_english (fst (npc_conversation w)) \<noteq> None"
  by (auto simp: npc_conversation_def split: reply.splits)

text \<open>The history kept after a turn: the last five entries.\<close>

lemma turn_stores:
  assumes "npc_id npc = Some nid" "npc_name npc = Some name" "player_input \<noteq> []" "has_ai_client w"
  shows "conversation_history (fst (snd (handle_npc_interaction w s npc player_input)))
           = AList.update nid
               (last_five (or_else (map_of (conversation_history s) nid) []
                            @ [exchange_of (w, player_input)]))
               (conversation_history s)"
  using assms npc_conversation_fields[of w]
  by (auto simp: handle_npc_interaction_def exchange_of_def last_five_def Let_def
      split: prod.splits option.splits)

lemma turn_keeps_rest:
  assumes "npc_id npc = Some nid" "other \<noteq> nid"
  shows "map_of (conversation_history (fst (snd (handle_npc_interaction w s npc player_input)))) other
           = map_of (conversation_history s) other"
  using assms
  by (auto simp: handle_npc_interaction_def Let_def update_conv' split: prod.splits option.splits)

lemma last_five_absorb: "last_five (last_five xs @ ys) = last_five (xs @ ys)"
proof (cases "length xs \<le> 5")
  case True
  then show ?thesis by (simp add: last_five_def)
next
  case False
  then show ?thesis by (simp add: last_five_def add.commute)
qed

lemma converse_history:
  assumes "npc_id npc = Some nid" "npc_name npc = Some name"
    "\<forall>t \<in> set turns. snd t \<noteq> [] \<and> has_ai_client (fst t)" "turns \<noteq> []"
  shows "map_of (conversation_history (converse s npc turns)) nid
           = Some (last_five (or_else (map_of (conversation_history s) nid) [] @ map exchange_of turns))"
  using assms(3,4)
proof (induction turns arbitrary: s)
  case Nil
  then show ?case by simp
next
  case (Cons t rest)
  obtain w player_input where t: "t = (w, player_input)" by (cases t)
  let ?s1 = "fst (snd (handle_npc_interaction w s npc player_input))"
  have ok: "player_input \<noteq> []" "has_ai_client w" using Cons.prems t by simp_all
  have first: "map_of (conversation_history ?s1) nid
      = Some (last_five (or_else (map_of (conversation_history s) nid) [] @ [exchange_of t]))"
    using turn_stores[OF assms(1,2) ok, of s] by (simp add: update_conv' t)
  show ?case
  proof (cases "rest = []")
    case True
    then show ?thesis using first by (simp add: t)
  next
    case False
    have "map_of (conversation_history (converse ?s1 npc rest)) nid
        = Some (last_five (or_else (map_of (conversation_history ?s1) nid) [] @ map exchange_of rest))"
      using Cons.IH[of ?s1] Cons.prems False by simp
    then show ?thesis
      using first by (simp add: t or_else_def last_five_absorb)
  qed
qed

lemma converse_keeps_rest:
  assumes "npc_id npc = Some nid" "other \<noteq> nid"
  shows "map_of (conversation_history (converse s npc turns)) other
           = map_of (conversation_history s) other"
proof (induction turns arbitrary: s)
  case Nil
  then show ?case by simp
next
  case (Cons t rest)
  then show ?case using turn_keeps_rest[OF assms] by (cases t) simp
qed

text \<open>
  C4: after 5+k turns (k at least 1) that go to the client, the stored history of the
  NPC is exactly the last five exchanges, oldest first, whatever the history was
  before; the histories of all other NPCs are as before.
\<close>

theorem history_keeps_last_five:
  assumes "npc_id npc = Some nid" "npc_name npc = Some name"
    "\<forall>t \<in> set turns. snd t \<noteq> [] \<and> has_ai_client (fst t)"
    "length turns = 5 + k" "1 \<le> k"
  shows "map_of (conversation_history (converse s npc turns)) nid
           = Some (drop k (map exchange_of turns)) \<and>
         length (drop k (map exchange_of turns)) = 5 \<and>
         (\<forall>other. other \<noteq> nid \<longrightarrow>
            map_of (conversation_history (converse s npc turns)) other
              = map_of (conversation_history s) other)"
proof -
  have ne: "turns \<noteq> []" using assms(4) by auto
  let ?h = "or_else (map_of (conversation_history s) nid) []"
  have "last_five (?h @ map exchange_of turns) = drop k (map exchange_of turns)"
    using assms(4) by (simp add: last_five_def)
  then show ?thesis
    using converse_history[OF assms(1,2,3) ne, of s] converse_keeps_rest[OF assms(1)] assms(4)
    by simp
qed

theorem history_keeps_last_five_witness:
  "map_of (conversation_history (converse started stored_shopkeeper seven_turns)) ''npc_0,0_0''
     = Some (map exchange_of
               [(failing_world, ''three''), (answering_world, ''four''), (answering_world, ''five''),
                (answering_world, ''six''), (answering_world, ''seven'')])"
proof -
  have a: "npc_id stored_shopkeeper = Some ''npc_0,0_0''" "npc_name stored_shopkeeper = Some ''Tanaka''"
    by (simp_all add: stored_shopkeeper_def shopkeeper_def)
  have b: "\<forall>t \<in> set seven_turns. snd t \<noteq> [] \<and> has_ai_client (fst t)"
    by (simp add: seven_turns_def answering_world_def failing_world_def)
  have c: "length seven_turns = 5 + 2" "1 \<le> (2::nat)"
    by (simp_all add: seven_turns_def)
  show ?thesis
    using history_keeps_last_five[OF a b c, of started] by (simp add: seven_turns_def)
qed

text \<open>
  C5, as the claim states it, fails: a failed request is answered with the
  technical-issue turn, and that turn is appended to the history of the NPC.
\<close>

theorem failed_turn_is_stored:
  "map_of (conversation_history started) ''npc_0,0_0'' = Some [] \<and>
   map_of (conversation_history
             (fst (snd (handle_npc_interaction failing_world started stored_shopkeeper ''hello''))))
       ''npc_0,0_0''
     = Some [\<lparr>user = ''hello'',
              assistant = \<lparr>response_japanese = Some jp_technical_problem,
                           response_english = Some ''Sorry, there's a technical issue.'',
                           language_note = Some ''Error: timeout''\<rparr>\<rparr>]"
  by code_simp

text \<open>
  C5, amended: when the request of a conversation turn fails, the operation returns the
  technical-issue turn (fixed Japanese and English sentences, and a language note that
  carries the error text), sends the one request, and appends this turn to the NPC's
  history like any other turn, keeping the last five entries.
\<close>

theorem failed_turn_fallback:
  assumes "npc_id npc = Some nid" "npc_name npc = Some name" "player_input \<noteq> []"
    "has_ai_client w" "api_key_set w" "talk_reply w = Failed e"
  shows "handle_npc_interaction w s npc player_input =
     (Inr (nl @ name @ '' says in Japanese: \"'' @ jp_technical_problem @ ''\"'' @ nl
           @ ''Translation: \"Sorry, there's a technical issue.\"'' @ nl
           @ nl @ ''Language Note: Error: '' @ e @ nl),
      s\<lparr>conversation_history :=
          AList.update nid
            (last_five (or_else (map_of (conversation_history s) nid) []
                 @ [\<lparr>user = player_input,
                     assistant = \<lparr>response_japanese = Some jp_technical_problem,
                                  response_english = Some ''Sorry, there's a technical issue.'',
                                  language_note = Some (''Error: '' @ e)\<rparr>\<rparr>]))
            (conversation_history s)\<rparr>,
      [Request Conversation])"
  using assms
  by (auto simp: handle_npc_interaction_def npc_conversation_def last_five_def Let_def)

theorem failed_turn_fallback_witness:
  "fst (handle_npc_interaction failing_world started stored_shopkeeper ''hello'') =
     Inr (nl @ ''Tanaka says in Japanese: \"'' @ jp_technical_problem @ ''\"'' @ nl
           @ ''Translation: \"Sorry, there's a technical issue.\"'' @ nl
           @ nl @ ''Language Note: Error: timeout'' @ nl)"
  using failed_turn_fallback[of stored_shopkeeper "''npc_0,0_0''" "''Tanaka''" "''hello''"
      failing_world "''timeout''" started]
  by (simp add: stored_shopkeeper_def shopkeeper_def failing_world_def)

subsection \<open>Taking what cannot be taken\<close>

text \<open>
  C10: when the item that \<open>take\<close> finds in the current location has \<open>can_be_taken\<close>
  false or absent, the command answers that the item seems fixed in place and the whole
  engine state (the location's item list, the inventory, the coordinates) is as before.
\<close>

theorem fixed_item_stays:
  assumes "split (lower command) = verb # args" "verb \<in> set [''take'', ''get'', jp_toru]"
    "args \<noteq> []"
    "get_item_in_location s (join '' '' args) = Some item_to_take"
    "item_can_be_taken item_to_take = Some False \<or> item_can_be_taken item_to_take = None"
    "item_name item_to_take = Some name"
  shows "process_command w s command =
           (Returned (Text (''You can't take the '' @ name @ '' (''
                            @ or_else (item_name_english item_to_take) []
                            @ ''). It seems fixed in place.'')), s, [])"
proof -
  have verb: "verb \<notin> set [''look'', ''l'', jp_miru]" "verb \<noteq> ''examine''" "verb \<notin> set go_verbs"
    using assms(2)
    by (auto simp: go_verbs_def jp_miru_def jp_toru_def jp_iku_def jp_kita_def jp_minami_def
        jp_higashi_def jp_nishi_def)
  have "item_to_take \<noteq> empty_item"
    using assms(6) by (auto simp: empty_item_def)
  then have "cmd_take s args =
           (Returned (Text (''You can't take the '' @ name @ '' (''
                            @ or_else (item_name_english item_to_take) []
                            @ ''). It seems fixed in place.'')), s, [])"
    using assms(4,5,6) by (auto simp: cmd_take_def nonempty_item_def or_else_def Let_def)
  then show ?thesis
    using assms(1,2,3) verb by (simp add: process_command_def)
qed

theorem fixed_item_stays_witness:
  "process_command offline_world started_with_fixture ''take stone''
     = (Returned (Text ''You can't take the tourou (Stone Lantern). It seems fixed in place.''),
        started_with_fixture, [])"
proof -
  have st: "started_with_fixture =
     \<lparr>locations =
       [(''0,0'',
         \<lparr>loc_id = ''loc_0,0'', loc_name = ''Quiet Shopping Street at (0, 0)'',
            loc_japanese_name = ''Quiet Shopping Street (0,0)'',
            loc_description = ''A procedurally generated quiet shopping street at (0, 0) (AI fallback).'',
            loc_setting = ''Quiet Shopping Street'', loc_coords = (0, 0),
            loc_exits = [], loc_items = [''item_0,0_0''], loc_npcs = [],
            loc_image_prompt =
              ''A procedurally generated quiet shopping street at (0, 0) (AI fallback). Setting: Quiet Shopping Street. Style: photorealistic. Items visible: Stone Lantern.''\<rparr>)],
      items = [(''item_0,0_0'', stone_lantern\<lparr>item_id := Some ''item_0,0_0''\<rparr>)],
      npcs = [], vocabulary = [], vocabulary_themes = [], player_inventory = [],
      player_jlpt_level = ''N5'', conversation_history = [], current_coords = (0, 0)\<rparr>"
    by code_simp
  have a: "split (lower ''take stone'') = ''take'' # [''stone'']"
    by (simp add: split_def lower_def lower_char_def is_space_def)
  have b: "get_item_in_location started_with_fixture (join '' '' [''stone''])
             = Some (stone_lantern\<lparr>item_id := Some ''item_0,0_0''\<rparr>)"
    unfolding st by code_simp
  show ?thesis
    using fixed_item_stays[OF a _ _ b, of "''tourou''" offline_world]
    by (simp add: stone_lantern_def or_else_def)
qed

subsection \<open>Visiting and creating locations\<close>








lemma add_generated_item_frame:
  "locations (fst (add_generated_item w s cs setting)) = locations s \<and>
   npcs (fst (add_generated_item w s cs setting)) = npcs s \<and>
   player_inventory (fst (add_generated_item w s cs setting)) = player_inventory s \<and>
   conversation_history (fst (add_generated_item w s cs setting)) = conversation_history s \<and>
   current_coords (fst (add_generated_item w s cs setting)) = current_coords s"
  by (simp add: add_generated_item_def Let_def split: prod.splits option.splits)

lemma add_generated_npc_frame:
  "locations (fst (add_generated_npc w s cs setting)) = locations s \<and>
   items (fst (add_generated_npc w s cs setting)) = items s \<and>
   player_inventory (fst (add_generated_npc w s cs setting)) = player_inventory s \<and>
   current_coords (fst (add_generated_npc w s cs setting)) = current_coords s"
  by (simp add: add_generated_npc_def Let_def split: prod.splits option.splits)

lemma generate_location_data_steps:
  "fst (snd (generate_location_data w s coords setting))
     = fst (add_generated_npc w (fst (add_generated_item w s (coords_to_str coords) setting))
              (coords_to_str coords) setting) \<and>
   loc_items (fst (generate_location_data w s coords setting))
     = fst (snd (add_generated_item w s (coords_to_str coords) setting)) \<and>
   loc_npcs (fst (generate_location_data w s coords setting))
     = fst (snd (add_generated_npc w (fst (add_generated_item w s (coords_to_str coords) setting))
              (coords_to_str coords) setting)) \<and>
   snd (snd (generate_location_data w s coords setting))
     = snd (generate_location_details w setting coords)
       @ snd (snd (snd (add_generated_item w s (coords_to_str coords) setting)))
       @ snd (snd (snd (add_generated_npc w (fst (add_generated_item w s (coords_to_str coords) setting))
              (coords_to_str coords) setting)))"
  by (simp add: generate_location_data_def Let_def split: prod.splits)

lemma generate_location_data_grid:
  "locations (fst (snd (generate_location_data w s coords setting))) = locations s \<and>
   player_inventory (fst (snd (generate_location_data w s coords setting))) = player_inventory s \<and>
   current_coords (fst (snd (generate_location_data w s coords setting))) = current_coords s"
  by (simp add: generate_location_data_steps add_generated_item_frame add_generated_npc_frame)




subsection \<open>Decimal numerals and ids\<close>

lemma less_ten: "k < (10::nat) \<Longrightarrow> k \<in> {0, 1, 2, 3, 4, 5, 6, 7, 8, 9}"
  by auto

lemma digit_char_digit: "k < 10 \<Longrightarrow> digit_char k \<in> set ''0123456789''"
  using less_ten[of k] by (auto simp: digit_char_def)

lemma str_nat_digits: "set (str_nat n) \<subseteq> set ''0123456789''"
proof (induction n rule: str_nat.induct)
  case (1 n)
  note d = digit_char_digit
  show ?case
  proof (cases "n < 10")
    case True
    then show ?thesis using d[of n] by (subst str_nat.simps) simp
  next
    case False
    then show ?thesis using 1 d[of "n mod 10"] by (subst str_nat.simps) simp
  qed
qed

lemma str_nat_nonempty: "str_nat n \<noteq> []"
  by (subst str_nat.simps) simp

lemma digit_char_inj: "a < 10 \<Longrightarrow> b < 10 \<Longrightarrow> digit_char a = digit_char b \<Longrightarrow> a = b"
  using less_ten[of a] less_ten[of b] by (auto simp: digit_char_def)

lemma str_nat_inj: "str_nat n = str_nat m \<Longrightarrow> n = m"
proof (induction n arbitrary: m rule: str_nat.induct)
  case (1 n)
  show ?case
  proof (cases "n < 10")
    case True
    then have n: "str_nat n = [digit_char n]" by (subst str_nat.simps) simp
    show ?thesis
    proof (cases "m < 10")
      case m: True
      then have "str_nat m = [digit_char m]" by (subst str_nat.simps) simp
      then show ?thesis using n "1.prems" True m digit_char_inj by simp
    next
      case False
      then have "str_nat m = str_nat (m div 10) @ [digit_char (m mod 10)]"
        by (subst str_nat.simps) simp
      then show ?thesis using n "1.prems" str_nat_nonempty[of "m div 10"] by simp
    qed
  next
    case False
    then have n: "str_nat n = str_nat (n div 10) @ [digit_char (n mod 10)]"
      by (subst str_nat.simps) simp
    show ?thesis
    proof (cases "m < 10")
      case True
      then have "str_nat m = [digit_char m]" by (subst str_nat.simps) simp
      then show ?thesis using n "1.prems" str_nat_nonempty[of "n div 10"] by simp
    next
      case m: False
      then have "str_nat m = str_nat (m div 10) @ [digit_char (m mod 10)]"
        by (subst str_nat.simps) simp
      with n "1.prems" have eq: "str_nat (n div 10) = str_nat (m div 10)"
        "digit_char (n mod 10) = digit_char (m mod 10)" by simp_all
      have "n div 10 = m div 10" using "1.IH"[OF False eq(1)] .
      moreover have "n mod 10 = m mod 10" using digit_char_inj[OF _ _ eq(2)] by simp
      ultimately show ?thesis by (metis div_mult_mod_eq)
    qed
  qed
qed

lemma suffix_after_separator:
  assumes "xs @ c # ys = xs' @ c # ys'" "c \<notin> set ys" "c \<notin> set ys'"
  shows "ys = ys'"
proof -
  have cut: "\<And>zs ws. c \<notin> set zs \<Longrightarrow> takeWhile (\<lambda>x. x \<noteq> c) (zs @ c # ws) = zs"
  proof -
    fix zs ws show "c \<notin> set zs \<Longrightarrow> takeWhile (\<lambda>x. x \<noteq> c) (zs @ c # ws) = zs"
      by (induction zs) auto
  qed
  have "takeWhile (\<lambda>x. x \<noteq> c) (rev (xs @ c # ys)) = rev ys"
    using cut[of "rev ys" "rev xs"] assms(2) by simp
  moreover have "takeWhile (\<lambda>x. x \<noteq> c) (rev (xs' @ c # ys')) = rev ys'"
    using cut[of "rev ys'" "rev xs'"] assms(3) by simp
  ultimately show ?thesis using assms(1) by (metis rev_rev_ident)
qed

text \<open>An id ends in an underscore and a counter; ids with different counters differ.\<close>

lemma id_counter: "p @ ''_'' @ str_nat n = q @ ''_'' @ str_nat m \<Longrightarrow> n = m"
proof -
  assume eq: "p @ ''_'' @ str_nat n = q @ ''_'' @ str_nat m"
  have "CHR ''_'' \<notin> set (str_nat n)" "CHR ''_'' \<notin> set (str_nat m)"
    using str_nat_digits[of n] str_nat_digits[of m] by auto
  then have "str_nat n = str_nat m"
    using suffix_after_separator[of p "CHR ''_''" "str_nat n" q "str_nat m"] eq by simp
  then show ?thesis by (rule str_nat_inj)
qed

subsection \<open>Dictionaries\<close>

lemma update_fresh: "k \<notin> keys d \<Longrightarrow> AList.update k v d = d @ [(k, v)]"
  by (induction d) (auto simp: keys_def)

lemma keys_update: "keys (AList.update k v d) = insert k (keys d)"
  by (simp add: keys_def dom_update)

lemma keys_map_of: "k \<in> keys d \<longleftrightarrow> map_of d k \<noteq> None"
  by (simp add: keys_def map_of_eq_None_iff)

lemma count_list_remove1:
  "count_list (remove1 a xs) x = (if x = a \<and> a \<in> set xs then count_list xs x - 1 else count_list xs x)"
  by (induction xs) auto

lemma count_update:
  "map_of ls k = Some old \<Longrightarrow>
     count_list (concat (map (\<lambda>(k, l). f l) (AList.update k new ls))) x + count_list (f old) x
       = count_list (concat (map (\<lambda>(k, l). f l) ls)) x + count_list (f new) x"
  by (induction ls) (auto split: if_splits)

subsection \<open>Consistency is kept by every command\<close>

lemma events_of_requests [simp]:
  "item_ids_added [] = []" "npc_ids_added [] = []"
  "item_ids_added (Request a # ev) = item_ids_added ev"
  "npc_ids_added (Request a # ev) = npc_ids_added ev"
  "item_ids_added (ItemAdded i # ev) = i # item_ids_added ev"
  "npc_ids_added (ItemAdded i # ev) = npc_ids_added ev"
  "item_ids_added (NpcAdded i # ev) = item_ids_added ev"
  "npc_ids_added (NpcAdded i # ev) = i # npc_ids_added ev"
  by (simp_all add: item_ids_added_def npc_ids_added_def map_filter_simps)

lemma events_append [simp]:
  "item_ids_added (ev @ ev') = item_ids_added ev @ item_ids_added ev'"
  "npc_ids_added (ev @ ev') = npc_ids_added ev @ npc_ids_added ev'"
  by (simp_all add: item_ids_added_def npc_ids_added_def map_filter_def)

lemma step_ok_same:
  "well_formed s \<Longrightarrow> item_ids_added ev = [] \<Longrightarrow> npc_ids_added ev = [] \<Longrightarrow> step_ok s s ev"
  by (simp add: step_ok_def)

lemma well_formed_history [simp]:
  "well_formed (s\<lparr>conversation_history := h\<rparr>) = well_formed s"
  by (simp add: well_formed_def holdings_def)

lemma well_formed_coords [simp]:
  "well_formed (s\<lparr>current_coords := c\<rparr>) = well_formed s"
  by (simp add: well_formed_def holdings_def)

lemma located_history [simp]:
  "located (s\<lparr>conversation_history := h\<rparr>) = located s"
  by (simp add: located_def)

text \<open>The requests of the client add no ids.\<close>

lemma client_events:
  "item_ids_added (snd (generate_location_details w setting coords)) = []"
  "npc_ids_added (snd (generate_location_details w setting coords)) = []"
  "item_ids_added (snd (generate_item_details w setting)) = []"
  "npc_ids_added (snd (generate_item_details w setting)) = []"
  "item_ids_added (snd (generate_npc_details w setting)) = []"
  "npc_ids_added (snd (generate_npc_details w setting)) = []"
  "item_ids_added (snd (npc_conversation w)) = []"
  "npc_ids_added (snd (npc_conversation w)) = []"
  "item_ids_added (snd (generate_enhanced_look w)) = []"
  "npc_ids_added (snd (generate_enhanced_look w)) = []"
  "item_ids_added (snd (generate_item_examination_details w d)) = []"
  "npc_ids_added (snd (generate_item_examination_details w d)) = []"
  by (auto simp: generate_location_details_def generate_item_details_def generate_npc_details_def
      npc_conversation_def generate_enhanced_look_def generate_item_examination_details_def Let_def
      split: reply.splits option.splits)

subsubsection \<open>Commands that only read\<close>

lemma cmd_look_ok: "well_formed s \<Longrightarrow> step_ok s (fst (snd (cmd_look w s args))) (snd (snd (cmd_look w s args)))"
  using client_events(9,10)[of w]
  by (auto simp: cmd_look_def get_ai_enhanced_look_description_def
      intro!: step_ok_same split: prod.splits option.splits)

lemma cmd_examine_ok:
  "well_formed s \<Longrightarrow> step_ok s (fst (snd (cmd_examine w s args))) (snd (snd (cmd_examine w s args)))"
proof -
  assume wf: "well_formed s"
  have "fst (snd (cmd_examine w s args)) = s"
    by (auto simp: cmd_examine_def Let_def split: prod.splits option.splits)
  moreover have "item_ids_added (snd (snd (cmd_examine w s args))) = [] \<and>
                 npc_ids_added (snd (snd (cmd_examine w s args))) = []"
    using client_events(11,12)[of w]
    by (auto simp: cmd_examine_def Let_def split: prod.splits option.splits) (metis snd_conv)+
  ultimately show ?thesis using step_ok_same[OF wf] by simp
qed

lemma cmd_inventory_ok:
  "well_formed s \<Longrightarrow> step_ok s (fst (snd (cmd_inventory s))) (snd (snd (cmd_inventory s)))"
  by (auto simp: cmd_inventory_def intro!: step_ok_same split: sum.splits)

lemma cmd_themes_ok:
  "well_formed s \<Longrightarrow> step_ok s (fst (snd (cmd_themes s))) (snd (snd (cmd_themes s)))"
  by (auto simp: cmd_themes_def Let_def intro!: step_ok_same)

lemma cmd_theme_ok:
  "well_formed s \<Longrightarrow> step_ok s (fst (snd (cmd_theme s args))) (snd (snd (cmd_theme s args)))"
  by (auto simp: cmd_theme_def Let_def intro!: step_ok_same split: option.splits sum.splits)

lemma cmd_learn_ok:
  "well_formed s \<Longrightarrow> step_ok s (fst (snd (cmd_learn s args))) (snd (snd (cmd_learn s args)))"
  by (auto simp: cmd_learn_def Let_def intro!: step_ok_same split: option.splits)

subsubsection \<open>talk\<close>

lemma well_formed_frame:
  "locations s' = locations s \<Longrightarrow> items s' = items s \<Longrightarrow> npcs s' = npcs s \<Longrightarrow>
   player_inventory s' = player_inventory s \<Longrightarrow> well_formed s' = well_formed s"
  by (simp add: well_formed_def holdings_def)

lemma located_frame:
  "locations s' = locations s \<Longrightarrow> current_coords s' = current_coords s \<Longrightarrow> located s' = located s"
  by (simp add: located_def)

lemma handle_npc_interaction_frame:
  "locations (fst (snd (handle_npc_interaction w s npc player_input))) = locations s \<and>
   items (fst (snd (handle_npc_interaction w s npc player_input))) = items s \<and>
   npcs (fst (snd (handle_npc_interaction w s npc player_input))) = npcs s \<and>
   player_inventory (fst (snd (handle_npc_interaction w s npc player_input))) = player_inventory s \<and>
   current_coords (fst (snd (handle_npc_interaction w s npc player_input))) = current_coords s"
  by (simp add: handle_npc_interaction_def Let_def split: prod.splits option.splits)

lemma handle_npc_interaction_events:
  "item_ids_added (snd (snd (handle_npc_interaction w s npc player_input))) = [] \<and>
   npc_ids_added (snd (snd (handle_npc_interaction w s npc player_input))) = []"
  using client_events(7,8)[of w]
  by (auto simp: handle_npc_interaction_def Let_def split: prod.splits option.splits)

lemma cmd_talk_cases:
  "snd (cmd_talk w s args) = (s, []) \<or>
   (\<exists>npc msg. snd (cmd_talk w s args) = snd (handle_npc_interaction w s npc msg))"
proof (cases "talk_target s args")
  case (Inl out)
  then show ?thesis by (simp add: cmd_talk_def)
next
  case (Inr p)
  obtain target msg where p: "p = (target, msg)" by (cases p)
  show ?thesis
  proof (cases target)
    case None
    then show ?thesis using Inr p by (simp add: cmd_talk_def Let_def split: sum.splits)
  next
    case (Some npc)
    have "snd (cmd_talk w s args) = snd (handle_npc_interaction w s npc msg)"
      using Inr p Some by (simp add: cmd_talk_def split: prod.splits sum.splits)
    then show ?thesis by blast
  qed
qed

lemma cmd_talk_ok:
  "well_formed s \<Longrightarrow> step_ok s (fst (snd (cmd_talk w s args))) (snd (snd (cmd_talk w s args)))"
proof -
  assume wf: "well_formed s"
  from cmd_talk_cases[of w s args] show ?thesis
  proof
    assume "snd (cmd_talk w s args) = (s, [])"
    then show ?thesis using step_ok_same[OF wf, of "[]"] by simp
  next
    assume "\<exists>npc msg. snd (cmd_talk w s args) = snd (handle_npc_interaction w s npc msg)"
    then obtain npc msg where eq: "snd (cmd_talk w s args) = snd (handle_npc_interaction w s npc msg)"
      by blast
    let ?s' = "fst (snd (handle_npc_interaction w s npc msg))"
    note fr = handle_npc_interaction_frame[of w s npc msg]
    have "well_formed ?s'" using wf well_formed_frame[of ?s' s] fr by simp
    moreover have "located ?s' = located s" using located_frame[of ?s' s] fr by simp
    ultimately show ?thesis
      using eq handle_npc_interaction_events[of w s npc msg] fr by (simp add: step_ok_def)
  qed
qed

subsubsection \<open>take and drop\<close>

lemma find_item_sound:
  "find_item cat q ids = Some d \<Longrightarrow> \<exists>i \<in> set ids. map_of cat i = Some d"
  by (induction ids) (auto simp: Let_def split: option.splits if_splits)

lemma holdings_count_transfer:
  assumes "well_formed s" "items s' = items s" "npcs s' = npcs s"
    "\<forall>x. count_list (holdings s') x = count_list (holdings s) x"
  shows "well_formed s'"
proof -
  have "set (holdings s') = set (holdings s)"
    using assms(4) by (metis count_list_0_iff subsetI subset_antisym)
  then show ?thesis using assms by (simp add: well_formed_def)
qed

lemma holdings_moved_out:
  assumes "map_of (locations s) k = Some location" "i \<in> set (loc_items location)"
  shows "count_list (holdings (s\<lparr>locations := AList.update k (location\<lparr>loc_items := remove1 i (loc_items location)\<rparr>) (locations s),
                                player_inventory := player_inventory s @ [i]\<rparr>)) x
           = count_list (holdings s) x"
proof -
  have "count_list (loc_items location) i > 0"
    using assms(2) by (metis count_list_0_iff neq0_conv)
  then show ?thesis
    using count_update[OF assms(1), of loc_items "location\<lparr>loc_items := remove1 i (loc_items location)\<rparr>" x] assms(2)
    by (auto simp: holdings_def count_list_remove1)
qed

lemma holdings_moved_in:
  assumes "map_of (locations s) k = Some location" "i \<in> set (player_inventory s)"
  shows "count_list (holdings (s\<lparr>locations := AList.update k (location\<lparr>loc_items := loc_items location @ [i]\<rparr>) (locations s),
                                player_inventory := remove1 i (player_inventory s)\<rparr>)) x
           = count_list (holdings s) x"
proof -
  have "count_list (player_inventory s) i > 0"
    using assms(2) by (metis count_list_0_iff neq0_conv)
  then show ?thesis
    using count_update[OF assms(1), of loc_items "location\<lparr>loc_items := loc_items location @ [i]\<rparr>" x] assms(2)
    by (auto simp: holdings_def count_list_remove1)
qed

lemma located_update:
  "map_of (locations s) k = Some location \<Longrightarrow> located s \<Longrightarrow>
     located (s\<lparr>locations := AList.update k location' (locations s), player_inventory := held\<rparr>)"
  by (simp add: located_def update_conv')

text \<open>What a successful take does, and what it needs: the item is found and may be taken.\<close>

lemma cmd_take_success:
  assumes "well_formed s" "get_item_in_location s (join '' '' args) = Some item_to_take"
    "item_can_be_taken item_to_take = Some True"
  shows "\<exists>i name location.
           item_id item_to_take = Some i \<and> item_name item_to_take = Some name \<and>
           map_of (locations s) (coords_to_str (current_coords s)) = Some location \<and>
           i \<in> set (loc_items location) \<and>
           cmd_take s args =
             (Returned (Text (''You take the '' @ name @ '' (''
                              @ or_else (item_name_english item_to_take) [] @ '').'')),
              s\<lparr>locations := AList.update (coords_to_str (current_coords s))
                               (location\<lparr>loc_items := remove1 i (loc_items location)\<rparr>) (locations s),
                 player_inventory := player_inventory s @ [i]\<rparr>, [])"
proof -
  from assms(2) obtain location where loc:
    "map_of (locations s) (coords_to_str (current_coords s)) = Some location"
    "find_item (items s) (lower (join '' '' args)) (loc_items location) = Some item_to_take"
    by (auto simp: get_item_in_location_def split: option.splits)
  from find_item_sound[OF loc(2)] obtain i where i:
    "i \<in> set (loc_items location)" "map_of (items s) i = Some item_to_take" by blast
  then have "(i, item_to_take) \<in> set (items s)" by (simp add: map_of_SomeD)
  with assms(1) have id: "item_id item_to_take = Some i" "item_name item_to_take \<noteq> None"
    by (auto simp: well_formed_def)
  then obtain name where name: "item_name item_to_take = Some name" by auto
  have ne: "item_to_take \<noteq> empty_item" using id(1) by (auto simp: empty_item_def)
  have "cmd_take s args =
             (Returned (Text (''You take the '' @ name @ '' (''
                              @ or_else (item_name_english item_to_take) [] @ '').'')),
              s\<lparr>locations := AList.update (coords_to_str (current_coords s))
                               (location\<lparr>loc_items := remove1 i (loc_items location)\<rparr>) (locations s),
                 player_inventory := player_inventory s @ [i]\<rparr>, [])"
    using assms(2,3) ne id(1) name loc(1) i(1)
    by (simp add: cmd_take_def nonempty_item_def or_else_def Let_def)
  then show ?thesis using id(1) name loc(1) i(1) by blast
qed

lemma cmd_take_ok:
  assumes "well_formed s"
  shows "step_ok s (fst (snd (cmd_take s args))) (snd (snd (cmd_take s args)))"
proof (cases "\<exists>d. get_item_in_location s (join '' '' args) = Some d \<and> item_can_be_taken d = Some True")
  case True
  then obtain d where d: "get_item_in_location s (join '' '' args) = Some d"
    "item_can_be_taken d = Some True" by blast
  from cmd_take_success[OF assms d] obtain i name location where r:
    "map_of (locations s) (coords_to_str (current_coords s)) = Some location"
    "i \<in> set (loc_items location)"
    "cmd_take s args =
             (Returned (Text (''You take the '' @ name @ '' (''
                              @ or_else (item_name_english d) [] @ '').'')),
              s\<lparr>locations := AList.update (coords_to_str (current_coords s))
                               (location\<lparr>loc_items := remove1 i (loc_items location)\<rparr>) (locations s),
                 player_inventory := player_inventory s @ [i]\<rparr>, [])"
    by blast
  let ?s' = "s\<lparr>locations := AList.update (coords_to_str (current_coords s))
                               (location\<lparr>loc_items := remove1 i (loc_items location)\<rparr>) (locations s),
                 player_inventory := player_inventory s @ [i]\<rparr>"
  have "well_formed ?s'"
    using holdings_count_transfer[OF assms, of ?s'] holdings_moved_out[OF r(1,2)] by simp
  moreover have "located s \<longrightarrow> located ?s'" using located_update[OF r(1)] by simp
  ultimately show ?thesis using r(3) by (simp add: step_ok_def)
next
  case False
  then have "snd (cmd_take s args) = (s, [])"
    by (auto simp: cmd_take_def nonempty_item_def or_else_def Let_def split: option.splits)
  then show ?thesis using step_ok_same[OF assms, of "[]"] by simp
qed


lemma cmd_drop_success:
  assumes "well_formed s" "located s" "get_item_in_inventory s (join '' '' args) = Some item_to_drop"
  shows "\<exists>i name location.
           item_id item_to_drop = Some i \<and> item_name item_to_drop = Some name \<and>
           map_of (locations s) (coords_to_str (current_coords s)) = Some location \<and>
           i \<in> set (player_inventory s) \<and>
           cmd_drop s args =
             (Returned (Text (''You drop the '' @ name @ '' (''
                              @ or_else (item_name_english item_to_drop) [] @ '').'')),
              s\<lparr>locations := AList.update (coords_to_str (current_coords s))
                               (location\<lparr>loc_items := loc_items location @ [i]\<rparr>) (locations s),
                 player_inventory := remove1 i (player_inventory s)\<rparr>, [])"
proof -
  from assms(2) obtain location where loc:
    "map_of (locations s) (coords_to_str (current_coords s)) = Some location"
    by (auto simp: located_def)
  from assms(3) have "find_item (items s) (lower (join '' '' args)) (player_inventory s) = Some item_to_drop"
    by (simp add: get_item_in_inventory_def)
  from find_item_sound[OF this] obtain i where i:
    "i \<in> set (player_inventory s)" "map_of (items s) i = Some item_to_drop" by blast
  then have "(i, item_to_drop) \<in> set (items s)" by (simp add: map_of_SomeD)
  with assms(1) have id: "item_id item_to_drop = Some i" "item_name item_to_drop \<noteq> None"
    by (auto simp: well_formed_def)
  then obtain name where name: "item_name item_to_drop = Some name" by auto
  have ne: "item_to_drop \<noteq> empty_item" using id(1) by (auto simp: empty_item_def)
  have "cmd_drop s args =
             (Returned (Text (''You drop the '' @ name @ '' (''
                              @ or_else (item_name_english item_to_drop) [] @ '').'')),
              s\<lparr>locations := AList.update (coords_to_str (current_coords s))
                               (location\<lparr>loc_items := loc_items location @ [i]\<rparr>) (locations s),
                 player_inventory := remove1 i (player_inventory s)\<rparr>, [])"
    using assms(3) ne id(1) name loc i(1)
    by (simp add: cmd_drop_def nonempty_item_def or_else_def Let_def)
  then show ?thesis using id(1) name loc i(1) by blast
qed

lemma cmd_drop_ok:
  assumes "well_formed s"
  shows "step_ok s (fst (snd (cmd_drop s args))) (snd (snd (cmd_drop s args)))"
proof (cases "located s \<and> (\<exists>d. get_item_in_inventory s (join '' '' args) = Some d)")
  case True
  then obtain d where d: "get_item_in_inventory s (join '' '' args) = Some d" by blast
  from cmd_drop_success[OF assms _ d] True obtain i name location where r:
    "map_of (locations s) (coords_to_str (current_coords s)) = Some location"
    "i \<in> set (player_inventory s)"
    "cmd_drop s args =
             (Returned (Text (''You drop the '' @ name @ '' (''
                              @ or_else (item_name_english d) [] @ '').'')),
              s\<lparr>locations := AList.update (coords_to_str (current_coords s))
                               (location\<lparr>loc_items := loc_items location @ [i]\<rparr>) (locations s),
                 player_inventory := remove1 i (player_inventory s)\<rparr>, [])"
    by blast
  let ?s' = "s\<lparr>locations := AList.update (coords_to_str (current_coords s))
                               (location\<lparr>loc_items := loc_items location @ [i]\<rparr>) (locations s),
                 player_inventory := remove1 i (player_inventory s)\<rparr>"
  have "well_formed ?s'"
    using holdings_count_transfer[OF assms, of ?s'] holdings_moved_in[OF r(1,2)] by simp
  moreover have "located s \<longrightarrow> located ?s'" using located_update[OF r(1)] by simp
  ultimately show ?thesis using r(3) by (simp add: step_ok_def)
next
  case False
  then have "snd (cmd_drop s args) = (s, [])"
    by (auto simp: cmd_drop_def nonempty_item_def located_def Let_def split: option.splits)
  then show ?thesis using step_ok_same[OF assms, of "[]"] by simp
qed

subsubsection \<open>go\<close>

lemma fresh_id:
  assumes "\<forall>k \<in> keys d. \<exists>p n. k = p @ ''_'' @ str_nat n \<and> n < length d"
  shows "q @ ''_'' @ str_nat (length d) \<notin> keys d"
proof
  assume "q @ ''_'' @ str_nat (length d) \<in> keys d"
  with assms obtain p n where "q @ ''_'' @ str_nat (length d) = p @ ''_'' @ str_nat n" "n < length d"
    by blast
  then show False using id_counter[of q "length d" p n] by simp
qed

lemma counters_after_update:
  assumes "\<forall>k \<in> keys d. \<exists>p n. k = p @ ''_'' @ str_nat n \<and> n < length d"
  shows "\<forall>k \<in> keys (AList.update (q @ ''_'' @ str_nat (length d)) v d).
           \<exists>p n. k = p @ ''_'' @ str_nat n
                  \<and> n < length (AList.update (q @ ''_'' @ str_nat (length d)) v d)"
proof -
  have fresh: "q @ ''_'' @ str_nat (length d) \<notin> keys d" using fresh_id[OF assms] .
  show ?thesis
  proof
    fix k assume "k \<in> keys (AList.update (q @ ''_'' @ str_nat (length d)) v d)"
    then have "k = q @ ''_'' @ str_nat (length d) \<or> k \<in> keys d" by (simp add: keys_update)
    then show "\<exists>p n. k = p @ ''_'' @ str_nat n
                  \<and> n < length (AList.update (q @ ''_'' @ str_nat (length d)) v d)"
    proof
      assume "k = q @ ''_'' @ str_nat (length d)"
      then show ?thesis using fresh by (auto simp: update_fresh)
    next
      assume "k \<in> keys d"
      with assms obtain p n where pn: "k = p @ ''_'' @ str_nat n" "n < length d" by blast
      have "n < length (AList.update (q @ ''_'' @ str_nat (length d)) v d)"
        using pn(2) fresh by (simp add: update_fresh)
      with pn(1) show ?thesis by blast
    qed
  qed
qed


lemma add_generated_item_result:
  "(fst (add_generated_item w s cs setting) = s \<and>
    fst (snd (add_generated_item w s cs setting)) = [] \<and>
    item_ids_added (snd (snd (snd (add_generated_item w s cs setting)))) = [] \<and>
    npc_ids_added (snd (snd (snd (add_generated_item w s cs setting)))) = []) \<or>
   (\<exists>d. item_id d = Some ((''item_'' @ cs) @ ''_'' @ str_nat (length (items s))) \<and>
         item_name d \<noteq> None \<and>
         fst (add_generated_item w s cs setting)
           = s\<lparr>items := AList.update ((''item_'' @ cs) @ ''_'' @ str_nat (length (items s))) d (items s)\<rparr> \<and>
         fst (snd (add_generated_item w s cs setting))
           = [(''item_'' @ cs) @ ''_'' @ str_nat (length (items s))] \<and>
         item_ids_added (snd (snd (snd (add_generated_item w s cs setting))))
           = [(''item_'' @ cs) @ ''_'' @ str_nat (length (items s))] \<and>
         npc_ids_added (snd (snd (snd (add_generated_item w s cs setting)))) = [])"
proof (cases "generate_item_details w setting")
  case (Pair r ev)
  have ev: "item_ids_added ev = []" "npc_ids_added ev = []"
    using client_events(3,4)[of w setting] Pair by simp_all
  show ?thesis
  proof (cases r)
    case None
    then show ?thesis using Pair ev by (simp add: add_generated_item_def)
  next
    case (Some d)
    show ?thesis
    proof (cases "d = empty_item")
      case True
      then show ?thesis using Pair Some ev by (simp add: add_generated_item_def)
    next
      case False
      have "item_name d \<noteq> None"
        using Pair Some by (auto simp: generate_item_details_def split: if_splits reply.splits)
      then show ?thesis
        using Pair Some False ev
        by (intro disjI2
              exI[of _ "d\<lparr>item_id := Some ((''item_'' @ cs) @ ''_'' @ str_nat (length (items s)))\<rparr>"])
           (simp add: add_generated_item_def Let_def)
    qed
  qed
qed

lemma add_generated_npc_result:
  "(fst (add_generated_npc w s cs setting) = s \<and>
    item_ids_added (snd (snd (snd (add_generated_npc w s cs setting)))) = [] \<and>
    npc_ids_added (snd (snd (snd (add_generated_npc w s cs setting)))) = []) \<or>
   (\<exists>d h. fst (add_generated_npc w s cs setting)
           = s\<lparr>npcs := AList.update ((''npc_'' @ cs) @ ''_'' @ str_nat (length (npcs s))) d (npcs s),
               conversation_history := h\<rparr> \<and>
         item_ids_added (snd (snd (snd (add_generated_npc w s cs setting)))) = [] \<and>
         npc_ids_added (snd (snd (snd (add_generated_npc w s cs setting))))
           = [(''npc_'' @ cs) @ ''_'' @ str_nat (length (npcs s))])"
proof (cases "npc_roll w")
  case False
  then show ?thesis by (simp add: add_generated_npc_def)
next
  case True
  show ?thesis
  proof (cases "generate_npc_details w setting")
    case (Pair r ev)
    have ev: "item_ids_added ev = []" "npc_ids_added ev = []"
      using client_events(5,6)[of w setting] Pair by simp_all
    show ?thesis
    proof (cases r)
      case None
      then show ?thesis using True Pair ev by (simp add: add_generated_npc_def)
    next
      case (Some d)
      show ?thesis
      proof (cases "d = empty_npc")
        case True
        then show ?thesis using \<open>npc_roll w\<close> Pair Some ev by (simp add: add_generated_npc_def)
      next
        case False
        then show ?thesis
          using True Pair Some ev
          by (intro disjI2
                exI[of _ "d\<lparr>npc_id := Some ((''npc_'' @ cs) @ ''_'' @ str_nat (length (npcs s)))\<rparr>"]
                exI[of _ "AList.update ((''npc_'' @ cs) @ ''_'' @ str_nat (length (npcs s))) []
                            (conversation_history s)"])
             (simp add: add_generated_npc_def Let_def)
      qed
    qed
  qed
qed

text \<open>Storing a new location that lists nothing, or one new item.\<close>

lemma holdings_new_location:
  "map_of (locations s) cs = None \<Longrightarrow> locations s' = AList.update cs loc (locations s) \<Longrightarrow>
   player_inventory s' = player_inventory s \<Longrightarrow>
   count_list (holdings s') x = count_list (holdings s) x + count_list (loc_items loc) x"
  by (simp add: holdings_def update_fresh keys_map_of)

lemma well_formed_store:
  assumes wf: "well_formed s" and fresh: "map_of (locations s) cs = None"
    and locs: "locations s' = AList.update cs loc (locations s)"
    and held: "player_inventory s' = player_inventory s"
    and its: "(items s' = items s \<and> loc_items loc = []) \<or>
              (\<exists>d. items s' = AList.update (q @ ''_'' @ str_nat (length (items s))) d (items s) \<and>
                    item_id d = Some (q @ ''_'' @ str_nat (length (items s))) \<and>
                    item_name d \<noteq> None \<and>
                    loc_items loc = [q @ ''_'' @ str_nat (length (items s))])"
    and nps: "npcs s' = npcs s \<or>
              (\<exists>d. npcs s' = AList.update (r @ ''_'' @ str_nat (length (npcs s))) d (npcs s))"
  shows "well_formed s'"
proof -
  note cnt = holdings_new_location[OF fresh locs held]
  have sets: "\<And>x. x \<in> set (holdings s') \<longleftrightarrow> x \<in> set (holdings s) \<or> x \<in> set (loc_items loc)"
    using cnt by (metis add_is_0 count_list_0_iff)
  have old: "(\<forall>(k, d) \<in> set (items s). item_id d = Some k \<and> item_name d \<noteq> None)"
    "\<forall>k \<in> keys (items s). \<exists>p n. k = p @ ''_'' @ str_nat n \<and> n < length (items s)"
    "\<forall>k \<in> keys (npcs s). \<exists>p n. k = p @ ''_'' @ str_nat n \<and> n < length (npcs s)"
    "set (holdings s) \<subseteq> keys (items s)"
    "\<forall>i \<in> keys (items s). count_list (holdings s) i = 1"
    using wf by (simp_all add: well_formed_def)
  have npc_part: "\<forall>k \<in> keys (npcs s'). \<exists>p n. k = p @ ''_'' @ str_nat n \<and> n < length (npcs s')"
    using nps counters_after_update[OF old(3)] old(3) by auto
  from its show ?thesis
  proof
    assume a: "items s' = items s \<and> loc_items loc = []"
    then show ?thesis using old npc_part cnt sets by (auto simp: well_formed_def)
  next
    assume "\<exists>d. items s' = AList.update (q @ ''_'' @ str_nat (length (items s))) d (items s) \<and>
                    item_id d = Some (q @ ''_'' @ str_nat (length (items s))) \<and>
                    item_name d \<noteq> None \<and>
                    loc_items loc = [q @ ''_'' @ str_nat (length (items s))]"
    then obtain d where d: "items s' = AList.update (q @ ''_'' @ str_nat (length (items s))) d (items s)"
      "item_id d = Some (q @ ''_'' @ str_nat (length (items s)))" "item_name d \<noteq> None"
      "loc_items loc = [q @ ''_'' @ str_nat (length (items s))]" by blast
    let ?i = "q @ ''_'' @ str_nat (length (items s))"
    have fr: "?i \<notin> keys (items s)" using fresh_id[OF old(2)] .
    then have app: "items s' = items s @ [(?i, d)]" using d(1) by (simp add: update_fresh)
    have nothold: "count_list (holdings s) ?i = 0" using fr old(4) by (auto simp: count_list_0_iff)
    have c1: "\<forall>(k, d) \<in> set (items s'). item_id d = Some k \<and> item_name d \<noteq> None"
      using old(1) d(2,3) app by auto
    have c2: "\<forall>k \<in> keys (items s'). \<exists>p n. k = p @ ''_'' @ str_nat n \<and> n < length (items s')"
      using counters_after_update[OF old(2), of q d] d(1) by simp
    have c4: "set (holdings s') \<subseteq> keys (items s')"
      using sets old(4) d(4) app by (auto simp: keys_def)
    have c5: "\<forall>i \<in> keys (items s'). count_list (holdings s') i = 1"
    proof
      fix i assume "i \<in> keys (items s')"
      then have "i = ?i \<or> i \<in> keys (items s)" using d(1) by (simp add: keys_update)
      then show "count_list (holdings s') i = 1"
      proof
        assume "i = ?i" then show ?thesis using cnt[of ?i] nothold d(4) by simp
      next
        assume i: "i \<in> keys (items s)"
        then have "i \<noteq> ?i" using fr by auto
        then show ?thesis using cnt[of i] old(5) i d(4) by simp
      qed
    qed
    show ?thesis using c1 c2 npc_part c4 c5 by (simp add: well_formed_def)
  qed
qed


lemma store_generated:
  assumes wf: "well_formed s" and fresh: "map_of (locations s) (coords_to_str coords) = None"
  shows "step_ok s
           ((fst (snd (generate_location_data w s coords setting)))
              \<lparr>locations := AList.update (coords_to_str coords)
                              (fst (generate_location_data w s coords setting))
                              (locations (fst (snd (generate_location_data w s coords setting)))),
               current_coords := coords\<rparr>)
           (snd (snd (generate_location_data w s coords setting))) \<and>
         located
           ((fst (snd (generate_location_data w s coords setting)))
              \<lparr>locations := AList.update (coords_to_str coords)
                              (fst (generate_location_data w s coords setting))
                              (locations (fst (snd (generate_location_data w s coords setting)))),
               current_coords := coords\<rparr>)"
proof -
  let ?cs = "coords_to_str coords"
  let ?g = "generate_location_data w s coords setting"
  let ?a = "add_generated_item w s ?cs setting"
  let ?s1 = "fst ?a"
  let ?b = "add_generated_npc w ?s1 ?cs setting"
  let ?final = "(fst (snd ?g))\<lparr>locations := AList.update ?cs (fst ?g) (locations (fst (snd ?g))),
                                current_coords := coords\<rparr>"
  let ?i = "(''item_'' @ ?cs) @ ''_'' @ str_nat (length (items s))"
  let ?j = "(''npc_'' @ ?cs) @ ''_'' @ str_nat (length (npcs s))"
  note steps = generate_location_data_steps[of w s coords setting]
  note fa = add_generated_item_frame[of w s ?cs setting]
  note fb = add_generated_npc_frame[of w ?s1 ?cs setting]
  have old: "\<forall>k \<in> keys (items s). \<exists>p n. k = p @ ''_'' @ str_nat n \<and> n < length (items s)"
    "\<forall>k \<in> keys (npcs s). \<exists>p n. k = p @ ''_'' @ str_nat n \<and> n < length (npcs s)"
    using wf by (simp_all add: well_formed_def)
  have locs: "locations ?final = AList.update ?cs (fst ?g) (locations s)"
    using steps fa fb by simp
  have held: "player_inventory ?final = player_inventory s"
    using steps fa fb by simp
  have items_final: "items ?final = items ?s1" using steps fb by simp
  have npcs_final: "npcs ?final = npcs (fst ?b)" using steps by simp
  have its: "(items ?final = items s \<and> loc_items (fst ?g) = [] \<and>
              item_ids_added (snd (snd (snd ?a))) = []) \<or>
             (\<exists>d. items ?final = AList.update ?i d (items s) \<and> item_id d = Some ?i \<and>
                   item_name d \<noteq> None \<and> loc_items (fst ?g) = [?i] \<and>
                   item_ids_added (snd (snd (snd ?a))) = [?i])"
    using add_generated_item_result[of w s ?cs setting] items_final steps by auto
  have nps: "(npcs ?final = npcs s \<and> npc_ids_added (snd (snd (snd ?b))) = []) \<or>
             (\<exists>d. npcs ?final = AList.update ?j d (npcs s) \<and>
                   npc_ids_added (snd (snd (snd ?b))) = [?j])"
    using add_generated_npc_result[of w ?s1 ?cs setting] npcs_final fa by auto
  have wf': "well_formed ?final"
    using well_formed_store[OF wf fresh locs held, of "''item_'' @ ?cs" "''npc_'' @ ?cs"] its nps
    by blast
  have loc': "located ?final" by (simp add: located_def update_conv')
  have ev_items: "item_ids_added (snd (snd ?g)) = item_ids_added (snd (snd (snd ?a)))"
    using steps client_events(1)[of w setting coords] add_generated_npc_result[of w ?s1 ?cs setting]
    by auto
  have ev_npcs: "npc_ids_added (snd (snd ?g)) = npc_ids_added (snd (snd (snd ?b)))"
    using steps client_events(2)[of w setting coords] add_generated_item_result[of w s ?cs setting]
    by auto
  have fri: "?i \<notin> keys (items s)" using fresh_id[OF old(1)] .
  have frj: "?j \<notin> keys (npcs s)" using fresh_id[OF old(2)] .
  have item_side: "keys (items s) \<subseteq> keys (items ?final) \<and> distinct (item_ids_added (snd (snd ?g))) \<and>
        set (item_ids_added (snd (snd ?g))) \<subseteq> keys (items ?final) - keys (items s)"
    using its fri unfolding ev_items by (auto simp: keys_update)
  have npc_side: "keys (npcs s) \<subseteq> keys (npcs ?final) \<and> distinct (npc_ids_added (snd (snd ?g))) \<and>
        set (npc_ids_added (snd (snd ?g))) \<subseteq> keys (npcs ?final) - keys (npcs s)"
    using nps frj unfolding ev_npcs by (auto simp: keys_update)
  show ?thesis
    using wf' loc' item_side npc_side unfolding step_ok_def by blast
qed


lemma cmd_go_cases:
  "snd (cmd_go w s verb args) = (s, []) \<or>
   (\<exists>target. map_of (locations s) (coords_to_str target) \<noteq> None \<and>
       snd (cmd_go w s verb args) = (s\<lparr>current_coords := target\<rparr>, [])) \<or>
   (\<exists>target setting. map_of (locations s) (coords_to_str target) = None \<and>
       snd (cmd_go w s verb args) =
         ((fst (snd (generate_location_data w s target setting)))
            \<lparr>locations := AList.update (coords_to_str target)
                            (fst (generate_location_data w s target setting))
                            (locations (fst (snd (generate_location_data w s target setting)))),
             current_coords := target\<rparr>,
          snd (snd (generate_location_data w s target setting))))"
proof (cases "go_direction verb args")
  case None
  then show ?thesis by (simp add: cmd_go_def)
next
  case (Some direction)
  show ?thesis
  proof (cases "direction = [] \<or> map_of direction_map direction = None")
    case True
    then show ?thesis using Some by (auto simp: cmd_go_def)
  next
    case False
    then obtain dx dy where d: "map_of direction_map direction = Some (dx, dy)" "direction \<noteq> []"
      by auto
    let ?target = "(fst (current_coords s) + dx, snd (current_coords s) + dy)"
    show ?thesis
    proof (cases "map_of (locations s) (coords_to_str ?target) = None")
      case True
      have "snd (cmd_go w s verb args) =
         ((fst (snd (generate_location_data w s ?target (random_choice w location_settings_pool))))
            \<lparr>locations := AList.update (coords_to_str ?target)
                            (fst (generate_location_data w s ?target (random_choice w location_settings_pool)))
                            (locations (fst (snd (generate_location_data w s ?target (random_choice w location_settings_pool))))),
             current_coords := ?target\<rparr>,
          snd (snd (generate_location_data w s ?target (random_choice w location_settings_pool))))"
        using Some d True by (simp add: cmd_go_def Let_def split: prod.splits)
      with True show ?thesis by blast
    next
      case False
      then obtain loc where "map_of (locations s) (coords_to_str ?target) = Some loc" by auto
      then have "snd (cmd_go w s verb args) = (s\<lparr>current_coords := ?target\<rparr>, [])"
        using Some d by (simp add: cmd_go_def Let_def)
      with False show ?thesis by blast
    qed
  qed
qed

lemma cmd_go_ok:
  assumes wf: "well_formed s"
  shows "step_ok s (fst (snd (cmd_go w s verb args))) (snd (snd (cmd_go w s verb args)))"
proof -
  consider
    (same) "snd (cmd_go w s verb args) = (s, [])"
  | (visited) target where "map_of (locations s) (coords_to_str target) \<noteq> None"
      "snd (cmd_go w s verb args) = (s\<lparr>current_coords := target\<rparr>, [])"
  | (new) target setting where "map_of (locations s) (coords_to_str target) = None"
      "snd (cmd_go w s verb args) =
         ((fst (snd (generate_location_data w s target setting)))
            \<lparr>locations := AList.update (coords_to_str target)
                            (fst (generate_location_data w s target setting))
                            (locations (fst (snd (generate_location_data w s target setting)))),
             current_coords := target\<rparr>,
          snd (snd (generate_location_data w s target setting)))"
    using cmd_go_cases[of w s verb args] by blast
  then show ?thesis
  proof cases
    case same
    then show ?thesis using step_ok_same[OF wf, of "[]"] by simp
  next
    case visited
    then show ?thesis using wf by (simp add: step_ok_def located_def)
  next
    case new
    then show ?thesis using store_generated[OF wf new(1), of w setting] by simp
  qed
qed

subsubsection \<open>Every command, and start-up\<close>

lemma step_ok_if:
  "step_ok s (fst (snd x)) (snd (snd x)) \<Longrightarrow> step_ok s (fst (snd y)) (snd (snd y)) \<Longrightarrow>
   step_ok s (fst (snd (if c then x else y))) (snd (snd (if c then x else y)))"
  by simp

lemma process_command_ok:
  assumes wf: "well_formed s"
  shows "step_ok s (fst (snd (process_command w s command))) (snd (snd (process_command w s command)))"
proof (cases "split (lower command)")
  case Nil
  then show ?thesis using step_ok_same[OF wf, of "[]"] by (simp add: process_command_def)
next
  case (Cons verb args)
  have leaf: "\<And>out. step_ok s (fst (snd (out, s, []))) (snd (snd (out, s, [])))"
    using step_ok_same[OF wf, of "[]"] by simp
  show ?thesis
    unfolding process_command_def Cons list.case
    by (intro step_ok_if cmd_look_ok[OF wf] cmd_examine_ok[OF wf] cmd_go_ok[OF wf]
        cmd_take_ok[OF wf] cmd_drop_ok[OF wf] cmd_inventory_ok[OF wf] cmd_talk_ok[OF wf]
        cmd_themes_ok[OF wf] cmd_theme_ok[OF wf] cmd_learn_ok[OF wf] leaf)
qed

lemma load_game_data_ok:
  "well_formed (fst (load_game_data w vocab_data themes_data (engine_init level))) \<and>
   located (fst (load_game_data w vocab_data themes_data (engine_init level))) \<and>
   distinct (item_ids_added (snd (load_game_data w vocab_data themes_data (engine_init level)))) \<and>
   set (item_ids_added (snd (load_game_data w vocab_data themes_data (engine_init level))))
     \<subseteq> keys (items (fst (load_game_data w vocab_data themes_data (engine_init level)))) \<and>
   distinct (npc_ids_added (snd (load_game_data w vocab_data themes_data (engine_init level)))) \<and>
   set (npc_ids_added (snd (load_game_data w vocab_data themes_data (engine_init level))))
     \<subseteq> keys (npcs (fst (load_game_data w vocab_data themes_data (engine_init level))))"
proof -
  let ?s3 = "(engine_init level)\<lparr>items := [], npcs := [], conversation_history := [],
      vocabulary := fold (\<lambda>(k, d). AList.update k d) vocab_data [],
      vocabulary_themes := (case themes_data of
                             Some ts \<Rightarrow> fold (\<lambda>(k, d). AList.update k d) ts []
                           | None \<Rightarrow> [])\<rparr>"
  let ?g = "generate_location_data w ?s3 (0, 0) ''Quiet Shopping Street''"
  have wf: "well_formed ?s3"
    by (simp add: well_formed_def engine_init_def holdings_def keys_def)
  have fresh: "map_of (locations ?s3) (coords_to_str (0, 0)) = None"
    by (simp add: engine_init_def)
  have eq: "load_game_data w vocab_data themes_data (engine_init level) =
      ((fst (snd ?g))\<lparr>locations := AList.update (coords_to_str (0, 0)) (fst ?g) (locations (fst (snd ?g))),
                      current_coords := (0, 0)\<rparr>, snd (snd ?g))"
    using fresh by (simp add: load_game_data_def engine_init_def Let_def split: prod.splits)
  show ?thesis
    unfolding eq using store_generated[OF wf fresh, of w "''Quiet Shopping Street''"]
    by (auto simp: step_ok_def)
qed



subsection \<open>Ownership of items\<close>








subsection \<open>Ids of generated items and NPCs\<close>

lemma run_ok:
  assumes "well_formed s" "set pre_i \<subseteq> keys (items s)" "distinct pre_i"
    "set pre_n \<subseteq> keys (npcs s)" "distinct pre_n"
  shows "distinct (pre_i @ item_ids_added (snd (run s session))) \<and>
         distinct (pre_n @ npc_ids_added (snd (run s session))) \<and>
         keys (items s) \<subseteq> keys (items (fst (run s session))) \<and>
         keys (npcs s) \<subseteq> keys (npcs (fst (run s session)))"
  using assms
proof (induction session arbitrary: s pre_i pre_n)
  case Nil
  then show ?case by simp
next
  case (Cons t rest)
  obtain w command where t: "t = (w, command)" by (cases t)
  let ?s' = "fst (snd (process_command w s command))"
  let ?ev = "snd (snd (process_command w s command))"
  from process_command_ok[OF Cons.prems(1), of w command]
  have ok: "well_formed ?s'" "keys (items s) \<subseteq> keys (items ?s')" "keys (npcs s) \<subseteq> keys (npcs ?s')"
    "distinct (item_ids_added ?ev)" "set (item_ids_added ?ev) \<subseteq> keys (items ?s') - keys (items s)"
    "distinct (npc_ids_added ?ev)" "set (npc_ids_added ?ev) \<subseteq> keys (npcs ?s') - keys (npcs s)"
    by (simp_all add: step_ok_def)
  have i1: "set (pre_i @ item_ids_added ?ev) \<subseteq> keys (items ?s')"
    using Cons.prems(2) ok(2,5) by auto
  have i2: "distinct (pre_i @ item_ids_added ?ev)"
    using Cons.prems(2,3) ok(4,5) by auto
  have n1: "set (pre_n @ npc_ids_added ?ev) \<subseteq> keys (npcs ?s')"
    using Cons.prems(4) ok(3,7) by auto
  have n2: "distinct (pre_n @ npc_ids_added ?ev)"
    using Cons.prems(4,5) ok(6,7) by auto
  have run_eq: "run s (t # rest) = (fst (run ?s' rest), ?ev @ snd (run ?s' rest))"
    by (simp add: t split: prod.splits)
  from Cons.IH[OF ok(1) i1 i2 n1 n2]
  show ?case unfolding run_eq using ok(2,3) by auto
qed

lemma generated_ids_shape:
  "set (loc_items (fst (generate_location_data w s coords setting)))
     \<subseteq> {''item_'' @ coords_to_str coords @ ''_'' @ str_nat (length (items s))} \<and>
   set (loc_npcs (fst (generate_location_data w s coords setting)))
     \<subseteq> {''npc_'' @ coords_to_str coords @ ''_'' @ str_nat (length (npcs s))}"
  by (auto simp: generate_location_data_def add_generated_item_def add_generated_npc_def Let_def
      split: prod.splits option.splits if_splits)

text \<open>
  C9: in a session (start-up, then any commands in any worlds) the ids given to new
  items are pairwise distinct, and so are the ids given to new NPCs; an id is made of
  the grid key of the coordinate and the size of the catalog, and the keys of both
  catalogs only grow.
\<close>

theorem generated_ids_unique:
  "distinct (item_ids_added
      (snd (load_game_data w0 vocab_data themes_data (engine_init level))
       @ snd (run (fst (load_game_data w0 vocab_data themes_data (engine_init level))) session))) \<and>
   distinct (npc_ids_added
      (snd (load_game_data w0 vocab_data themes_data (engine_init level))
       @ snd (run (fst (load_game_data w0 vocab_data themes_data (engine_init level))) session))) \<and>
   keys (items (fst (load_game_data w0 vocab_data themes_data (engine_init level))))
     \<subseteq> keys (items (fst (run (fst (load_game_data w0 vocab_data themes_data (engine_init level)))
                              session))) \<and>
   keys (npcs (fst (load_game_data w0 vocab_data themes_data (engine_init level))))
     \<subseteq> keys (npcs (fst (run (fst (load_game_data w0 vocab_data themes_data (engine_init level)))
                             session))) \<and>
   set (loc_items (fst (generate_location_data w s coords setting)))
     \<subseteq> {''item_'' @ coords_to_str coords @ ''_'' @ str_nat (length (items s))} \<and>
   set (loc_npcs (fst (generate_location_data w s coords setting)))
     \<subseteq> {''npc_'' @ coords_to_str coords @ ''_'' @ str_nat (length (npcs s))}"
proof -
  let ?l = "load_game_data w0 vocab_data themes_data (engine_init level)"
  from load_game_data_ok[of w0 vocab_data themes_data level]
  have "well_formed (fst ?l)" "set (item_ids_added (snd ?l)) \<subseteq> keys (items (fst ?l))"
    "distinct (item_ids_added (snd ?l))" "set (npc_ids_added (snd ?l)) \<subseteq> keys (npcs (fst ?l))"
    "distinct (npc_ids_added (snd ?l))" by simp_all
  from run_ok[OF this, of session] show ?thesis
    using generated_ids_shape[of w s coords setting] by simp
qed

theorem generated_ids_unique_witness:
  "item_ids_added
      (snd (load_game_data answering_world [] None (engine_init ''N5''))
       @ snd (run started [(answering_world, ''go north''), (failing_world, ''go east''),
                           (answering_world, ''go south'')]))
     = [''item_0,0_0'', ''item_0,1_1'', ''item_1,0_2''] \<and>
   distinct (item_ids_added
      (snd (load_game_data answering_world [] None (engine_init ''N5''))
       @ snd (run started [(answering_world, ''go north''), (failing_world, ''go east''),
                           (answering_world, ''go south'')])))"
proof -
  have "item_ids_added
      (snd (load_game_data answering_world [] None (engine_init ''N5''))
       @ snd (run started [(answering_world, ''go north''), (failing_world, ''go east''),
                           (answering_world, ''go south'')]))
     = [''item_0,0_0'', ''item_0,1_1'', ''item_1,0_2'']"
    by code_simp
  then show ?thesis
    using generated_ids_unique[of answering_world "[]" None "''N5''"
        "[(answering_world, ''go north''), (failing_world, ''go east''), (answering_world, ''go south'')]"]
    unfolding started_def by simp
qed

end
